theory Spec2Isabelle
  imports Complex_Main "HOL-Library.Extended_Nat"
begin

section \<open>Numbers, points and circles\<close>

text \<open>
  JavaScript numbers are modelled as real numbers: every coordinate, radius, hit point
  count, time stamp and threshold is finite (never NaN or an infinity) and arithmetic is
  exact. Counters that only ever start at zero and are incremented are natural numbers.
\<close>

definition COLLISION_EPSILON :: real where
  "COLLISION_EPSILON = 1 / 1000"

record point =
  x :: real
  y :: real

record circle = point +
  radius :: real

text \<open>\<^verbatim>\<open>Utils.clamp\<close>, \<^verbatim>\<open>Utils.distance\<close>, \<^verbatim>\<open>Math.hypot\<close> and \<^verbatim>\<open>Math.round\<close>
  (which rounds a half towards plus infinity).\<close>

definition Utils_clamp :: "real \<Rightarrow> real \<Rightarrow> real \<Rightarrow> real" where
  "Utils_clamp v mn mx = min (max v mn) mx"

definition Utils_distance :: "real \<Rightarrow> real \<Rightarrow> real \<Rightarrow> real \<Rightarrow> real" where
  "Utils_distance x1 y1 x2 y2 =
     (let dx = x2 - x1; dy = y2 - y1 in sqrt (dx * dx + dy * dy))"

definition Math_hypot :: "real \<Rightarrow> real \<Rightarrow> real" where
  "Math_hypot a b = sqrt (a * a + b * b)"

definition Math_round :: "real \<Rightarrow> real" where
  "Math_round v = of_int \<lfloor>v + 1 / 2\<rfloor>"

text \<open>\<^verbatim>\<open>CollisionSystem.checkCircleCollision\<close>: any two objects with \<^verbatim>\<open>x\<close>, \<^verbatim>\<open>y\<close> and
  \<^verbatim>\<open>radius\<close>.\<close>

definition checkCircleCollision :: "'a circle_scheme \<Rightarrow> 'b circle_scheme \<Rightarrow> bool" where
  "checkCircleCollision obj1 obj2 =
     (let dx = x obj2 - x obj1;
          dy = y obj2 - y obj1;
          distance = sqrt (dx * dx + dy * dy);
          minDistance = radius obj1 + radius obj2
      in distance < minDistance + COLLISION_EPSILON)"


section \<open>The input manager and its providers\<close>

text \<open>
  The fields of \<^verbatim>\<open>InputManager\<close> that providers and event handlers write (its
  ``input state'' and ``mouse state''). Time stamps are seconds, \<^verbatim>\<open>Date.now() / 1000\<close>.
\<close>

record input_state =
  moveVector :: point
  fire :: bool
  pickup :: bool
  switchWeapon :: bool
  lastWeaponSwitchTime :: real
  weaponSwitchCooldown :: real
  creatorMode :: bool
  lastCreatorModeToggleTime :: real
  creatorModeToggleCooldown :: real
  mouseX :: real
  mouseY :: real

datatype js_error = JsError string

text \<open>
  A provider is any object with a \<^verbatim>\<open>name\<close> and an \<^verbatim>\<open>update\<close> method. The method reads the
  provider's own key and button sets and writes the manager's input state; it either
  returns normally (\<open>Inr\<close>) or throws (\<open>Inl\<close>, with the input state as far as it had been
  written). \<open>listening\<close> records whether \<^verbatim>\<open>activate\<close> has registered the provider's
  event listeners (and \<^verbatim>\<open>deactivate\<close> has not removed them since).
\<close>

type_synonym update_method =
  "real \<Rightarrow> string set \<Rightarrow> int set \<Rightarrow> input_state \<Rightarrow> (js_error \<times> input_state) + input_state"

record Provider =
  name :: string
  keys :: "string set"
  mouseButtons :: "int set"
  listening :: bool
  update :: update_method

text \<open>
  Providers are objects compared by reference: \<open>objects\<close> is the store of provider
  objects, \<open>providers\<close> the registry \<^verbatim>\<open>Map\<close> from registration names to references.
\<close>

record InputManager =
  providers :: "string \<rightharpoonup> nat"
  objects :: "nat \<rightharpoonup> Provider"
  activeProvider :: "nat option"
  fallbackProvider :: "nat option"
  inputs :: input_state


section \<open>The gesture input manager\<close>

record GestureInputManager =
  moveVector :: point
  initialized :: bool
  center :: point
  leftHandPresent :: bool
  arenaWidth :: "real option"
  arenaHeight :: "real option"
  aimSmoothingAlpha :: real
  aimDeadzonePx :: real
  aimMaxStepPx :: real
  gestureAimSmoothed :: "point option"
  rightPinchActive :: bool
  rightPinchOnThreshold :: real
  rightPinchOffThreshold :: real
  leftPinchActive :: bool
  leftPinchOnThreshold :: real
  leftPinchOffThreshold :: real
  gestureShootingActive :: bool
  gestureAimTargetGame :: "point option"


text \<open>\<^verbatim>\<open>new GestureInputManager()\<close>. The constructor leaves \<^verbatim>\<open>gestureShootingActive\<close> and
  \<^verbatim>\<open>gestureAimTargetGame\<close> undefined, which reads as false and as no target.\<close>

definition GestureInputManager_new :: GestureInputManager where
  "GestureInputManager_new =
     \<lparr>moveVector = \<lparr>x = 0, y = 0\<rparr>, initialized = False,
      center = \<lparr>x = 8 / 10, y = 6 / 10\<rparr>, leftHandPresent = False,
      arenaWidth = None, arenaHeight = None,
      aimSmoothingAlpha = 4 / 10, aimDeadzonePx = 6, aimMaxStepPx = 10000,
      gestureAimSmoothed = None,
      rightPinchActive = False, rightPinchOnThreshold = 4 / 100,
      rightPinchOffThreshold = 55 / 1000,
      leftPinchActive = False, leftPinchOnThreshold = 4 / 100,
      leftPinchOffThreshold = 6 / 100,
      gestureShootingActive = False, gestureAimTargetGame = None\<rparr>"

text \<open>
  One detected hand of a result frame: its handedness label and its landmark array. A
  frame is the list of the hands for which both a landmark array and a handedness entry
  exist (the first \<^verbatim>\<open>handsCount\<close> of them).
\<close>

record hand =
  label :: string
  landmarks :: "point list"

text \<open>Reading an array element: \<^verbatim>\<open>undefined\<close> beyond the end.\<close>

definition element :: "'a list \<Rightarrow> nat \<Rightarrow> 'a option" where
  "element xs i = (if i < length xs then Some (xs ! i) else None)"

text \<open>The local variables that the loop over the hands of \<^verbatim>\<open>onResults\<close> sets.\<close>

record tips =
  rightFingerTip :: "point option"
  rightThumbTip :: "point option"
  leftFingerTip :: "point option"
  leftThumbTip :: "point option"
  leftPresent :: bool

fun scanHands :: "hand list \<Rightarrow> tips \<Rightarrow> tips" where
  "scanHands [] t = t"
| "scanHands (h # rest) t =
     scanHands rest
       (if label h = ''Left'' then
          t\<lparr>leftPresent := True,
            leftFingerTip := element (landmarks h) 8,
            leftThumbTip := element (landmarks h) 4\<rparr>
        else if label h = ''Right'' then
          t\<lparr>rightFingerTip := element (landmarks h) 8,
            rightThumbTip := element (landmarks h) 4\<rparr>
        else t)"

definition noTips :: tips where
  "noTips = \<lparr>rightFingerTip = None, rightThumbTip = None, leftFingerTip = None,
             leftThumbTip = None, leftPresent = False\<rparr>"

text \<open>
  The pinch judgment, which the source writes out once for each hand: with both tips,
  an active pinch ends above the off threshold and an inactive one starts below the on
  threshold; without them the pinch is not active.
\<close>

definition pinchJudgment ::
  "real \<Rightarrow> real \<Rightarrow> point option \<Rightarrow> point option \<Rightarrow> bool \<Rightarrow> bool" where
  "pinchJudgment onThreshold offThreshold fingerTip thumbTip active =
     (case fingerTip of
        None \<Rightarrow> False
      | Some f \<Rightarrow>
          (case thumbTip of
             None \<Rightarrow> False
           | Some t \<Rightarrow>
               (let dxn = x t - x f;
                    dyn = y t - y f;
                    distNorm = Math_hypot dxn dyn
                in if active then (if distNorm > offThreshold then False else active)
                   else (if distNorm < onThreshold then True else active))))"

text \<open>``Update movement only based on right hand''.\<close>

definition gestureMovement :: "point option \<Rightarrow> GestureInputManager \<Rightarrow> GestureInputManager" where
  "gestureMovement fingerTip gi =
     (case fingerTip of
        None \<Rightarrow> gi\<lparr>moveVector := \<lparr>x = 0, y = 0\<rparr>\<rparr>
      | Some f \<Rightarrow>
          (let dx = - (x f - x (center gi));
               dy = - (y f - y (center gi));
               magnitude = sqrt (dx * dx + dy * dy)
           in if magnitude > 5 / 100
              then gi\<lparr>moveVector := \<lparr>x = dx / magnitude, y = dy / magnitude\<rparr>\<rparr>
              else gi\<lparr>moveVector := \<lparr>x = 0, y = 0\<rparr>\<rparr>))"

text \<open>
  ``Smooth/Denoise processing'' of a raw aim point, and the output of the rounded
  target.
\<close>

definition smoothAim :: "real \<Rightarrow> real \<Rightarrow> GestureInputManager \<Rightarrow> GestureInputManager" where
  "smoothAim rawX rawY gi =
     (let prev = (case gestureAimSmoothed gi of
                    Some s \<Rightarrow> s
                  | None \<Rightarrow> \<lparr>x = rawX, y = rawY\<rparr>);
          dxAim = rawX - x prev;
          dyAim = rawY - y prev;
          dist = Math_hypot dxAim dyAim;
          smoothed =
            (if dist < aimDeadzonePx gi then prev
             else
               (let cappedDx = Utils_clamp dxAim (- aimMaxStepPx gi) (aimMaxStepPx gi);
                    cappedDy = Utils_clamp dyAim (- aimMaxStepPx gi) (aimMaxStepPx gi);
                    cappedRawX = x prev + cappedDx;
                    cappedRawY = y prev + cappedDy;
                    a = aimSmoothingAlpha gi
                in \<lparr>x = x prev * (1 - a) + cappedRawX * a,
                    y = y prev * (1 - a) + cappedRawY * a\<rparr>))
      in gi\<lparr>gestureAimSmoothed := Some smoothed,
            gestureAimTargetGame := Some \<lparr>x = Math_round (x smoothed),
                                         y = Math_round (y smoothed)\<rparr>,
            gestureShootingActive := True\<rparr>)"

text \<open>A number or \<^verbatim>\<open>null\<close> as a condition: \<^verbatim>\<open>null\<close> and zero are falsy.\<close>

definition truthy :: "real option \<Rightarrow> bool" where
  "truthy v = (case v of None \<Rightarrow> False | Some r \<Rightarrow> r \<noteq> 0)"

text \<open>
  The aim mapping inside the overlay branch, for an overlay canvas of width \<open>w\<close> and
  height \<open>h\<close>. First the region of the left hand: its left edge \<open>dx\<close>, its top edge
  \<open>dy\<close>, its width and its height. Drawing is left out; the canvas is taken to have a
  positive width and height.
\<close>

definition aimRegion ::
  "real \<Rightarrow> real \<Rightarrow> GestureInputManager \<Rightarrow> real \<times> real \<times> real \<times> real" where
  "aimRegion w h gi =
     (let totalArea = w * h;
          targetArea = totalArea * (15 / 100);
          mapRatio = (if truthy (arenaWidth gi) \<and> truthy (arenaHeight gi)
                      then the (arenaWidth gi) / the (arenaHeight gi)
                      else w / h);
          rectW = sqrt (targetArea * mapRatio);
          rectH = sqrt (targetArea / mapRatio);
          desiredCenterX = (25 / 100) * w;
          leftX = Math_round (desiredCenterX - rectW / 2);
          dx = max 0 (min leftX (Math_round (w - rectW)));
          desiredCenterY = (6 / 10) * h;
          topY = Math_round (desiredCenterY - rectH / 2);
          dy = max 0 (min topY (Math_round (h - rectH)))
      in (dx, dy, rectW, rectH))"

text \<open>The raw aim point of a fingertip that lies within the region: mirrored
  horizontally and rescaled to the arena; \<open>None\<close> outside the region.\<close>

definition regionToArena ::
  "real \<Rightarrow> real \<Rightarrow> real \<times> real \<times> real \<times> real \<Rightarrow> point \<Rightarrow> GestureInputManager
     \<Rightarrow> (real \<times> real) option" where
  "regionToArena w h region f gi =
     (case region of (dx, dy, rectW, rectH) \<Rightarrow>
        (let fx = x f * w;
             fy = y f * h;
             withinRegion = (fx \<ge> dx \<and> fx \<le> dx + rectW \<and> fy \<ge> dy \<and> fy \<le> dy + rectH)
         in if withinRegion then
              (let localX = rectW - (fx - dx);
                   localY = fy - dy;
                   rawX = (localX / rectW)
                            * (if truthy (arenaWidth gi) then the (arenaWidth gi) else w);
                   rawY = (localY / rectH)
                            * (if truthy (arenaHeight gi) then the (arenaHeight gi) else h)
               in Some (rawX, rawY))
            else None))"

text \<open>The aim part of the overlay branch: with the left hand present, a fingertip
  within the region is smoothed into the aim target; otherwise gesture shooting is off
  and the target is \<^verbatim>\<open>null\<close>, the smoothed point being kept.\<close>

definition gestureAim ::
  "real \<Rightarrow> real \<Rightarrow> point option \<Rightarrow> GestureInputManager \<Rightarrow> GestureInputManager" where
  "gestureAim w h fingerTip gi =
     (if leftHandPresent gi then
        (case fingerTip of
           None \<Rightarrow> gi\<lparr>gestureShootingActive := False, gestureAimTargetGame := None\<rparr>
         | Some f \<Rightarrow>
             (case regionToArena w h (aimRegion w h gi) f gi of
                Some (rawX, rawY) \<Rightarrow> smoothAim rawX rawY gi
              | None \<Rightarrow> gi\<lparr>gestureShootingActive := False, gestureAimTargetGame := None\<rparr>))
      else gi)"

text \<open>
  \<^verbatim>\<open>GestureInputManager.onResults\<close> for one frame. \<open>overlay\<close> is the size of the overlay
  canvas, or \<open>None\<close> when there is no overlay.
\<close>

definition onResults ::
  "(real \<times> real) option \<Rightarrow> hand list \<Rightarrow> GestureInputManager \<Rightarrow> GestureInputManager" where
  "onResults overlay hands gi =
     (let t = scanHands hands noTips;
          gi1 = gi\<lparr>leftHandPresent := leftPresent t, gestureShootingActive := False\<rparr>;
          gi2 = gi1\<lparr>rightPinchActive :=
                  pinchJudgment (rightPinchOnThreshold gi1) (rightPinchOffThreshold gi1)
                    (rightFingerTip t) (rightThumbTip t) (rightPinchActive gi1)\<rparr>;
          gi3 = gi2\<lparr>leftPinchActive :=
                  pinchJudgment (leftPinchOnThreshold gi2) (leftPinchOffThreshold gi2)
                    (leftFingerTip t) (leftThumbTip t) (leftPinchActive gi2)\<rparr>;
          gi4 = gestureMovement (rightFingerTip t) gi3
      in case overlay of
           None \<Rightarrow> gi4
         | Some (w, h) \<Rightarrow> gestureAim w h (leftFingerTip t) gi4)"

text \<open>The frames of a camera session, one after the other.\<close>

fun runFrames ::
  "GestureInputManager \<Rightarrow> ((real \<times> real) option \<times> hand list) list \<Rightarrow> GestureInputManager" where
  "runFrames gi [] = gi"
| "runFrames gi (fr # rest) = runFrames (onResults (fst fr) (snd fr) gi) rest"

text \<open>The normalised distance between index fingertip and thumb tip of a hand in a
  frame, when the frame has both points of that hand.\<close>

definition tipDistance :: "point option \<Rightarrow> point option \<Rightarrow> real option" where
  "tipDistance fingerTip thumbTip =
     (case fingerTip of
        None \<Rightarrow> None
      | Some f \<Rightarrow>
          (case thumbTip of
             None \<Rightarrow> None
           | Some t \<Rightarrow> Some (Math_hypot (x t - x f) (y t - y f))))"

definition rightPinchDistance :: "hand list \<Rightarrow> real option" where
  "rightPinchDistance hands =
     (let t = scanHands hands noTips in tipDistance (rightFingerTip t) (rightThumbTip t))"

definition leftPinchDistance :: "hand list \<Rightarrow> real option" where
  "leftPinchDistance hands =
     (let t = scanHands hands noTips in tipDistance (leftFingerTip t) (leftThumbTip t))"


section \<open>Entities\<close>

text \<open>
  Modelled from the spec: the entity classes of \<^verbatim>\<open>gameplay.js\<close> (player, enemies,
  projectiles, pickups with their types, weapons), as records of the fields that the game
  loop reads and writes. A projectile's owner is \<^verbatim>\<open>'player'\<close>, an enemy identifier or
  \<^verbatim>\<open>null\<close>; an ammunition count may be infinite.
\<close>

record Player = circle +
  hp :: real
  maxHp :: real
  invulnerabilityTimer :: real
  invulnerabilityDuration :: real
  creatorMode :: bool

record Enemy = circle +
  hp :: real
  damage :: real
  alive :: bool

record Projectile = circle +
  damage :: real
  owner :: "string option"
  alive :: bool

datatype pickup_type = MG_AMMO | GRENADE | HEAL | PISTOL_HASTE

record Pickup = circle +
  type :: pickup_type

record Weapon =
  fireRate :: real
  currentAmmo :: enat

record Weapons =
  pistol :: Weapon
  machine_gun :: Weapon
  knife :: Weapon
  grenade :: Weapon

text \<open>Modelled from the spec: \<^verbatim>\<open>Player.canTakeDamage\<close>, missing with \<^verbatim>\<open>gameplay.js\<close>: the
  test of the ``invulnerability window after taking damage''.\<close>

definition Player_canTakeDamage :: "Player \<Rightarrow> bool" where
  "Player_canTakeDamage p = (invulnerabilityTimer p \<le> 0)"

text \<open>Modelled from the spec: \<^verbatim>\<open>Player.takeDamage\<close>, missing with \<^verbatim>\<open>gameplay.js\<close>: hit points
  go down by the amount and the invulnerability window opens.\<close>

definition Player_takeDamage :: "real \<Rightarrow> Player \<Rightarrow> Player" where
  "Player_takeDamage amount p =
     p\<lparr>Player.hp := Player.hp p - amount, invulnerabilityTimer := invulnerabilityDuration p\<rparr>"

text \<open>Modelled from the spec: \<^verbatim>\<open>Player.isAlive\<close>, missing with \<^verbatim>\<open>gameplay.js\<close>.\<close>

definition Player_isAlive :: "Player \<Rightarrow> bool" where
  "Player_isAlive p = (0 < Player.hp p)"

text \<open>Modelled from the spec: \<^verbatim>\<open>Enemy.takeDamage\<close>, missing with \<^verbatim>\<open>gameplay.js\<close>: hit points
  go down by the amount, and ``enemy death (hp \<open>\<le>\<close> 0)'' clears the alive flag.\<close>

definition Enemy_takeDamage :: "real \<Rightarrow> Enemy \<Rightarrow> Enemy" where
  "Enemy_takeDamage amount e =
     (let h = Enemy.hp e - amount
      in e\<lparr>Enemy.hp := h, Enemy.alive := (if h \<le> 0 then False else Enemy.alive e)\<rparr>)"

text \<open>Modelled from the spec: \<^verbatim>\<open>Enemy.isAlive\<close> and \<^verbatim>\<open>Projectile.isAlive\<close>, missing with
  \<^verbatim>\<open>gameplay.js\<close>: they read the alive flag.\<close>

definition Enemy_isAlive :: "Enemy \<Rightarrow> bool" where
  "Enemy_isAlive e = Enemy.alive e"

definition Projectile_isAlive :: "Projectile \<Rightarrow> bool" where
  "Projectile_isAlive p = Projectile.alive p"


section \<open>The game\<close>

text \<open>The state machine and the fields of the game object, as they are once \<^verbatim>\<open>init\<close> has
  created the player.\<close>

datatype game_state = BOOT | MENU | PLAYING | PAUSED | UPGRADE_PICK | GAME_OVER

record GameStateMachine =
  currentState :: game_state
  previousState :: "game_state option"

record Game =
  stateMachine :: GameStateMachine
  inputManager :: InputManager
  gestureInput :: GestureInputManager
  player :: Player
  enemies :: "Enemy list"
  projectiles :: "Projectile list"
  pickups :: "Pickup list"
  killCount :: nat
  enemySpawnTimer :: real
  pickupSpawnTimer :: real
  creatorMode :: bool
  pistolHasteActive :: bool
  pistolHasteRemaining :: real
  originalPistolFireRate :: "real option"
  pistolBaseFireRate :: "real option"
  weapons :: Weapons
  currentWeaponKey :: string
  pickupCandidate :: "Pickup option"
  prevLeftPinchActive :: bool


section \<open>Operations of the input manager\<close>

text \<open>\<^verbatim>\<open>new InputManager()\<close>.\<close>

definition InputManager_new :: InputManager where
  "InputManager_new =
     \<lparr>providers = Map.empty, objects = Map.empty, activeProvider = None,
      fallbackProvider = None,
      inputs = \<lparr>input_state.moveVector = \<lparr>x = 0, y = 0\<rparr>, fire = False, pickup = False,
                switchWeapon = False, lastWeaponSwitchTime = 0, weaponSwitchCooldown = 2 / 10,
                input_state.creatorMode = False, lastCreatorModeToggleTime = 0,
                creatorModeToggleCooldown = 2 / 10, mouseX = 0, mouseY = 0\<rparr>\<rparr>"

text \<open>
  \<^verbatim>\<open>provider.activate?.()\<close> and \<^verbatim>\<open>provider.deactivate?.()\<close>: the keyboard provider registers
  and removes its listeners, the stubs only log; the calls are taken to return normally.
\<close>

definition activate :: "nat \<Rightarrow> InputManager \<Rightarrow> InputManager" where
  "activate r im =
     (case objects im r of
        None \<Rightarrow> im
      | Some p \<Rightarrow> im\<lparr>objects := (objects im)(r \<mapsto> p\<lparr>listening := True\<rparr>)\<rparr>)"

definition deactivate :: "nat \<Rightarrow> InputManager \<Rightarrow> InputManager" where
  "deactivate r im =
     (case objects im r of
        None \<Rightarrow> im
      | Some p \<Rightarrow> im\<lparr>objects := (objects im)(r \<mapsto> p\<lparr>listening := False\<rparr>)\<rparr>)"

text \<open>\<^verbatim>\<open>InputManager.setActiveProvider\<close>: the provider is looked up by name in the
  registry.\<close>

definition setActiveProvider :: "string \<Rightarrow> InputManager \<Rightarrow> InputManager" where
  "setActiveProvider nm im =
     (case providers im nm of
        None \<Rightarrow> im
      | Some provider \<Rightarrow>
          (let im1 = (case activeProvider im of
                        None \<Rightarrow> im
                      | Some a \<Rightarrow> deactivate a im)
           in activate provider (im1\<lparr>activeProvider := Some provider\<rparr>)))"

text \<open>\<^verbatim>\<open>InputManager.registerProvider\<close>; \<open>r\<close> is the reference of the provider object.\<close>

definition registerProvider ::
  "string \<Rightarrow> nat \<Rightarrow> Provider \<Rightarrow> bool \<Rightarrow> InputManager \<Rightarrow> InputManager" where
  "registerProvider nm r provider isFallback im =
     (let im1 = im\<lparr>providers := (providers im)(nm \<mapsto> r),
                    objects := (objects im)(r \<mapsto> provider)\<rparr>;
          im2 = (if isFallback then im1\<lparr>fallbackProvider := Some r\<rparr> else im1)
      in if activeProvider im2 = None then setActiveProvider nm im2 else im2)"

text \<open>\<^verbatim>\<open>InputManager.fallbackToDefault\<close>: the references are compared, the switch goes
  through the fallback provider's own \<^verbatim>\<open>name\<close>.\<close>

definition fallbackToDefault :: "InputManager \<Rightarrow> InputManager" where
  "fallbackToDefault im =
     (case fallbackProvider im of
        None \<Rightarrow> im
      | Some f \<Rightarrow>
          (if activeProvider im \<noteq> Some f then
             (case objects im f of
                None \<Rightarrow> im
              | Some p \<Rightarrow> setActiveProvider (name p) im)
           else im))"

text \<open>
  \<^verbatim>\<open>InputManager.update\<close>. The result is \<open>Inl\<close> when an error leaves the method and \<open>Inr\<close>
  when it returns. The \<^verbatim>\<open>catch\<close> block warns on the console and calls
  \<^verbatim>\<open>fallbackToDefault\<close>.
\<close>

definition InputManager_update :: "real \<Rightarrow> InputManager \<Rightarrow> js_error + InputManager" where
  "InputManager_update deltaTime im =
     (case activeProvider im of
        None \<Rightarrow> Inr im
      | Some a \<Rightarrow>
          (case objects im a of
             None \<Rightarrow> Inr im
           | Some p \<Rightarrow>
               (case update p deltaTime (keys p) (mouseButtons p) (inputs im) of
                  Inr st \<Rightarrow> Inr (im\<lparr>inputs := st\<rparr>)
                | Inl (error, st) \<Rightarrow> Inr (fallbackToDefault (im\<lparr>inputs := st\<rparr>)))))"

text \<open>\<^verbatim>\<open>clearWeaponSwitch\<close>, \<^verbatim>\<open>clearCreatorModeToggle\<close>, \<^verbatim>\<open>canSwitchWeapon\<close> and
  \<^verbatim>\<open>canToggleCreatorMode\<close>; \<open>now\<close> is \<^verbatim>\<open>Date.now() / 1000\<close> at the call.\<close>

definition clearWeaponSwitch :: "real \<Rightarrow> input_state \<Rightarrow> input_state" where
  "clearWeaponSwitch now st = st\<lparr>switchWeapon := False, lastWeaponSwitchTime := now\<rparr>"

definition clearCreatorModeToggle :: "real \<Rightarrow> input_state \<Rightarrow> input_state" where
  "clearCreatorModeToggle now st =
     st\<lparr>input_state.creatorMode := False, lastCreatorModeToggleTime := now\<rparr>"

definition canSwitchWeapon :: "real \<Rightarrow> input_state \<Rightarrow> bool" where
  "canSwitchWeapon now st = (now - lastWeaponSwitchTime st \<ge> weaponSwitchCooldown st)"

definition canToggleCreatorMode :: "real \<Rightarrow> input_state \<Rightarrow> bool" where
  "canToggleCreatorMode now st =
     (now - lastCreatorModeToggleTime st \<ge> creatorModeToggleCooldown st)"


section \<open>The providers\<close>

text \<open>\<^verbatim>\<open>KeyboardMouseProvider.keyMap\<close>.\<close>

definition keyMap :: "string \<rightharpoonup> string" where
  "keyMap = map_of
     [(''KeyW'', ''up''), (''KeyS'', ''down''), (''KeyA'', ''left''), (''KeyD'', ''right''),
      (''ArrowUp'', ''up''), (''ArrowDown'', ''down''), (''ArrowLeft'', ''left''),
      (''ArrowRight'', ''right''), (''KeyR'', ''switchWeapon''), (''KeyG'', ''creatorMode''),
      (''KeyF'', ''pickup'')]"

text \<open>\<^verbatim>\<open>KeyboardMouseProvider.update\<close>; every registered provider has its input manager
  set.\<close>

definition KeyboardMouseProvider_update :: update_method where
  "KeyboardMouseProvider_update deltaTime ks mbs st =
     (let x1 = (if ''left'' \<in> ks then 0 - 1 else 0);
          x2 = (if ''right'' \<in> ks then x1 + 1 else x1);
          y1 = (if ''up'' \<in> ks then 0 - 1 else 0);
          y2 = (if ''down'' \<in> ks then y1 + 1 else y1);
          length = sqrt (x2 * x2 + y2 * y2);
          x3 = (if x2 \<noteq> 0 \<and> y2 \<noteq> 0 then x2 / length else x2);
          y3 = (if x2 \<noteq> 0 \<and> y2 \<noteq> 0 then y2 / length else y2)
      in Inr (st\<lparr>input_state.moveVector := \<lparr>x = x3, y = y3\<rparr>,
                 fire := (0 \<in> mbs),
                 pickup := (''pickup'' \<in> ks)\<rparr>))"

text \<open>\<^verbatim>\<open>GestureProvider.update\<close> and \<^verbatim>\<open>VoiceProvider.update\<close>, the two stubs.\<close>

definition GestureProvider_update :: update_method where
  "GestureProvider_update deltaTime ks mbs st =
     Inr (st\<lparr>input_state.moveVector := \<lparr>x = 0, y = 0\<rparr>, fire := False\<rparr>)"

definition VoiceProvider_update :: update_method where
  "VoiceProvider_update deltaTime ks mbs st =
     Inr (st\<lparr>input_state.moveVector := \<lparr>x = 0, y = 0\<rparr>, fire := False\<rparr>)"

text \<open>The three constructors.\<close>

definition KeyboardMouseProvider_new :: Provider where
  "KeyboardMouseProvider_new =
     \<lparr>name = ''keyboard-mouse'', keys = {}, mouseButtons = {}, listening = False,
      update = KeyboardMouseProvider_update\<rparr>"

definition GestureProvider_new :: Provider where
  "GestureProvider_new =
     \<lparr>name = ''gesture'', keys = {}, mouseButtons = {}, listening = False,
      update = GestureProvider_update\<rparr>"

definition VoiceProvider_new :: Provider where
  "VoiceProvider_new =
     \<lparr>name = ''voice'', keys = {}, mouseButtons = {}, listening = False,
      update = VoiceProvider_update\<rparr>"

text \<open>
  \<^verbatim>\<open>KeyboardMouseProvider.handleKeyDown\<close> for the key with the given \<^verbatim>\<open>event.code\<close>, at
  time \<open>now\<close>: the provider and the manager's input state before and after.
\<close>

definition handleKeyDown ::
  "real \<Rightarrow> string \<Rightarrow> Provider \<times> input_state \<Rightarrow> Provider \<times> input_state" where
  "handleKeyDown now code ps =
     (case ps of (p, st) \<Rightarrow>
        (case keyMap code of
           None \<Rightarrow> (p, st)
         | Some action \<Rightarrow>
             (if action = ''switchWeapon'' then
                (if \<not> switchWeapon st \<and> canSwitchWeapon now st
                 then (p, st\<lparr>switchWeapon := True\<rparr>) else (p, st))
              else if action = ''creatorMode'' then
                (if \<not> input_state.creatorMode st \<and> canToggleCreatorMode now st
                 then (p, st\<lparr>input_state.creatorMode := True\<rparr>) else (p, st))
              else
                (p\<lparr>keys := insert action (keys p)\<rparr>,
                 if action = ''pickup'' then st\<lparr>pickup := True\<rparr> else st))))"

text \<open>\<^verbatim>\<open>KeyboardMouseProvider.handleKeyUp\<close>.\<close>

definition handleKeyUp ::
  "string \<Rightarrow> Provider \<times> input_state \<Rightarrow> Provider \<times> input_state" where
  "handleKeyUp code ps =
     (case ps of (p, st) \<Rightarrow>
        (case keyMap code of
           None \<Rightarrow> (p, st)
         | Some action \<Rightarrow>
             (if action \<noteq> ''switchWeapon'' \<and> action \<noteq> ''creatorMode'' then
                (p\<lparr>keys := keys p - {action}\<rparr>,
                 if action = ''pickup'' then st\<lparr>pickup := False\<rparr> else st)
              else (p, st))))"


section \<open>Pickup effects and the pistol fire rate\<close>

text \<open>\<^verbatim>\<open>Game.recomputePistolFireRate\<close>; \<^verbatim>\<open>??\<close> falls back to the pistol's current rate when no
  base rate is stored.\<close>

definition recomputePistolFireRate :: "Game \<Rightarrow> Game" where
  "recomputePistolFireRate g =
     (let base = (case pistolBaseFireRate g of
                    Some b \<Rightarrow> b
                  | None \<Rightarrow> fireRate (pistol (weapons g)));
          effective = base / (if pistolHasteActive g then 3 else 1)
      in g\<lparr>weapons := (weapons g)\<lparr>pistol := (pistol (weapons g))\<lparr>fireRate := effective\<rparr>\<rparr>\<rparr>)"

text \<open>\<^verbatim>\<open>Game.applyPickupEffect\<close>; the toast it shows is display only.\<close>

fun applyPickupEffect :: "pickup_type \<Rightarrow> Game \<Rightarrow> Game" where
  "applyPickupEffect MG_AMMO g =
     g\<lparr>weapons := (weapons g)\<lparr>machine_gun :=
          (machine_gun (weapons g))\<lparr>currentAmmo := currentAmmo (machine_gun (weapons g)) + 20\<rparr>\<rparr>\<rparr>"
| "applyPickupEffect GRENADE g =
     g\<lparr>weapons := (weapons g)\<lparr>grenade :=
          (grenade (weapons g))\<lparr>currentAmmo := currentAmmo (grenade (weapons g)) + 5\<rparr>\<rparr>\<rparr>"
| "applyPickupEffect HEAL g =
     g\<lparr>player := (player g)\<lparr>Player.hp :=
          min (maxHp (player g)) (Player.hp (player g) + 1)\<rparr>\<rparr>"
| "applyPickupEffect PISTOL_HASTE g =
     recomputePistolFireRate (g\<lparr>pistolHasteActive := True, pistolHasteRemaining := 10\<rparr>)"


section \<open>Collision and resolution\<close>

text \<open>\<^verbatim>\<open>InputManager.isPickingUp\<close> and \<^verbatim>\<open>GestureInputManager.isRightPinchActive\<close>.\<close>

definition isPickingUp :: "InputManager \<Rightarrow> bool" where
  "isPickingUp im = pickup (inputs im)"

definition isRightPinchActive :: "GestureInputManager \<Rightarrow> bool" where
  "isRightPinchActive gi = rightPinchActive gi"

text \<open>First loop of \<^verbatim>\<open>Game.handleCollisions\<close>, player against every enemy in array order.\<close>

fun playerVsEnemies :: "Player \<Rightarrow> Enemy list \<Rightarrow> Player" where
  "playerVsEnemies p [] = p"
| "playerVsEnemies p (enemy # rest) =
     playerVsEnemies
       (if checkCircleCollision p enemy then
          (if Player_canTakeDamage p then Player_takeDamage (Enemy.damage enemy) p else p)
        else p)
       rest"

text \<open>
  Second loop. The inner \<^verbatim>\<open>forEach\<close> runs one projectile against every enemy in array
  order: a hit damages the enemy, clears the projectile's alive flag and, when the enemy
  is not alive afterwards, increments the kill counter. The sound played on a hit is not
  part of the state.
\<close>

fun projectileVsEnemies ::
  "Projectile \<Rightarrow> Enemy list \<Rightarrow> nat \<Rightarrow> Projectile \<times> Enemy list \<times> nat" where
  "projectileVsEnemies projectile [] kills = (projectile, [], kills)"
| "projectileVsEnemies projectile (enemy # rest) kills =
     (if checkCircleCollision projectile enemy then
        (let enemy' = Enemy_takeDamage (Projectile.damage projectile) enemy;
             projectile' = projectile\<lparr>Projectile.alive := False\<rparr>;
             kills' = (if \<not> Enemy_isAlive enemy' then kills + 1 else kills)
         in case projectileVsEnemies projectile' rest kills' of
              (p, es, k) \<Rightarrow> (p, enemy' # es, k))
      else
        (case projectileVsEnemies projectile rest kills of
           (p, es, k) \<Rightarrow> (p, enemy # es, k)))"

text \<open>The outer \<^verbatim>\<open>forEach\<close>: only projectiles whose owner is the string \<^verbatim>\<open>'player'\<close>.\<close>

fun projectilesVsEnemies ::
  "Projectile list \<Rightarrow> Enemy list \<Rightarrow> nat \<Rightarrow> Projectile list \<times> Enemy list \<times> nat" where
  "projectilesVsEnemies [] es kills = ([], es, kills)"
| "projectilesVsEnemies (projectile # rest) es kills =
     (if owner projectile = Some ''player'' then
        (case projectileVsEnemies projectile es kills of
           (p, es', kills') \<Rightarrow>
             (case projectilesVsEnemies rest es' kills' of
                (ps, es'', kills'') \<Rightarrow> (p # ps, es'', kills'')))
      else
        (case projectilesVsEnemies rest es kills of
           (ps, es'', kills'') \<Rightarrow> (projectile # ps, es'', kills'')))"

text \<open>Third loop: projectiles whose owner is neither \<^verbatim>\<open>'player'\<close> nor \<^verbatim>\<open>null\<close>, against the
  player.\<close>

fun enemyProjectilesVsPlayer :: "Projectile list \<Rightarrow> Player \<Rightarrow> Projectile list \<times> Player" where
  "enemyProjectilesVsPlayer [] p = ([], p)"
| "enemyProjectilesVsPlayer (projectile # rest) p =
     (if owner projectile \<noteq> Some ''player'' \<and> owner projectile \<noteq> None then
        (if checkCircleCollision projectile p then
           (if Player_canTakeDamage p then
              (case enemyProjectilesVsPlayer rest
                      (Player_takeDamage (Projectile.damage projectile) p) of
                 (ps, p') \<Rightarrow> (projectile\<lparr>Projectile.alive := False\<rparr> # ps, p'))
            else
              (case enemyProjectilesVsPlayer rest p of
                 (ps, p') \<Rightarrow> (projectile # ps, p')))
         else
           (case enemyProjectilesVsPlayer rest p of
              (ps, p') \<Rightarrow> (projectile # ps, p')))
      else
        (case enemyProjectilesVsPlayer rest p of
           (ps, p') \<Rightarrow> (projectile # ps, p')))"

text \<open>
  The search loop of the fourth part, from index \<open>i\<close> on. \<open>None\<close> stands for
  \<^verbatim>\<open>nearestIndex = -1\<close>, \<^verbatim>\<open>nearestDist = Infinity\<close>; \<open>Some (i, d)\<close> for the index and the
  distance found so far.
\<close>

fun nearestPickup ::
  "Player \<Rightarrow> Pickup list \<Rightarrow> nat \<Rightarrow> (nat \<times> real) option \<Rightarrow> (nat \<times> real) option" where
  "nearestPickup p [] i nearest = nearest"
| "nearestPickup p (pk # rest) i nearest =
     (if checkCircleCollision p pk then
        (let d = Utils_distance (x p) (y p) (x pk) (y pk)
         in if (case nearest of None \<Rightarrow> True | Some (nearestIndex, nearestDist) \<Rightarrow> d < nearestDist)
            then nearestPickup p rest (i + 1) (Some (i, d))
            else nearestPickup p rest (i + 1) nearest)
      else nearestPickup p rest (i + 1) nearest)"

text \<open>\<^verbatim>\<open>array.splice(i, 1)\<close>.\<close>

definition splice1 :: "'a list \<Rightarrow> nat \<Rightarrow> 'a list" where
  "splice1 xs i = take i xs @ drop (Suc i) xs"

text \<open>Fourth part: the nearest overlapping pickup becomes the candidate and is collected
  only on the F key or the right-hand pinch.\<close>

definition playerVsPickups :: "Game \<Rightarrow> Game" where
  "playerVsPickups g0 =
     (let g = g0\<lparr>pickupCandidate := None\<rparr>
      in case nearestPickup (player g) (pickups g) 0 None of
           None \<Rightarrow> g
         | Some (nearestIndex, nearestDist) \<Rightarrow>
             (let candidate = pickups g ! nearestIndex;
                  g1 = g\<lparr>pickupCandidate := Some candidate\<rparr>;
                  pinchActive = isRightPinchActive (gestureInput g1)
              in if isPickingUp (inputManager g1) \<or> pinchActive then
                   (let g2 = applyPickupEffect (type candidate) g1
                    in g2\<lparr>pickups := splice1 (pickups g2) nearestIndex,
                          pickupCandidate := None\<rparr>)
                 else g1))"

text \<open>\<^verbatim>\<open>Game.handleCollisions\<close>: the four parts in the order of the source.\<close>

definition handleCollisions :: "Game \<Rightarrow> Game" where
  "handleCollisions g =
     (let g1 = g\<lparr>player := playerVsEnemies (player g) (enemies g)\<rparr>;
          g2 = (case projectilesVsEnemies (projectiles g1) (enemies g1) (killCount g1) of
                  (ps, es, kills) \<Rightarrow> g1\<lparr>projectiles := ps, enemies := es, killCount := kills\<rparr>);
          g3 = (case enemyProjectilesVsPlayer (projectiles g2) (player g2) of
                  (ps, p) \<Rightarrow> g2\<lparr>projectiles := ps, player := p\<rparr>)
      in playerVsPickups g3)"


section \<open>The simulation loop\<close>

text \<open>\<^verbatim>\<open>Game.setupInput\<close>: the three providers are the objects 0, 1 and 2.\<close>

definition setupInput :: "InputManager \<Rightarrow> InputManager" where
  "setupInput im =
     setActiveProvider ''keyboard-mouse''
       (registerProvider ''voice'' 2 VoiceProvider_new False
         (registerProvider ''gesture'' 1 GestureProvider_new False
           (registerProvider ''keyboard-mouse'' 0 KeyboardMouseProvider_new True im)))"

text \<open>\<^verbatim>\<open>GameStateMachine.setState\<close>; the state-changed event has no subscriber.\<close>

definition setState :: "game_state \<Rightarrow> GameStateMachine \<Rightarrow> GameStateMachine" where
  "setState newState sm =
     (if currentState sm = newState then sm
      else sm\<lparr>previousState := Some (currentState sm), currentState := newState\<rparr>)"

text \<open>
  What a tick takes from outside the game object: the wall clock, the random spawns, and
  the behaviour of the entities of \<^verbatim>\<open>gameplay.js\<close> (the player's own update and its
  \<^verbatim>\<open>fire\<close>, and the updates of enemies, projectiles and weapons), each as the change it
  makes to the game.
\<close>

record collaborators =
  now :: real
  Player_update :: "real \<Rightarrow> point \<Rightarrow> Game \<Rightarrow> Game"
  Player_fire :: "real \<Rightarrow> real \<Rightarrow> Game \<Rightarrow> Game"
  spawnEnemy :: "Game \<Rightarrow> Game"
  spawnPickup :: "Game \<Rightarrow> Game"
  updateEntities :: "real \<Rightarrow> Game \<Rightarrow> Game"

definition ENEMY_SPAWN_INTERVAL :: real where
  "ENEMY_SPAWN_INTERVAL = 2"

definition PICKUP_SPAWN_INTERVAL :: real where
  "PICKUP_SPAWN_INTERVAL = 8"

text \<open>\<^verbatim>\<open>Array.indexOf\<close>, which is \<open>-1\<close> for a value that is not in the array.\<close>

fun indexOf :: "'a list \<Rightarrow> 'a \<Rightarrow> int" where
  "indexOf [] v = - 1"
| "indexOf (a # as) v =
     (if a = v then 0 else (let i = indexOf as v in if i < 0 then - 1 else i + 1))"

definition weaponOrder :: "string list" where
  "weaponOrder = [''pistol'', ''machine_gun'', ''knife'', ''grenade'']"

text \<open>\<^verbatim>\<open>Game.toggleWeapon\<close>; the player's weapon reference follows the key.\<close>

definition toggleWeapon :: "Game \<Rightarrow> Game" where
  "toggleWeapon g =
     (let currentIndex = indexOf weaponOrder (currentWeaponKey g);
          nextIndex = (currentIndex + 1) mod int (length weaponOrder)
      in g\<lparr>currentWeaponKey := weaponOrder ! nat nextIndex\<rparr>)"

text \<open>\<^verbatim>\<open>applyCreatorModeModifications\<close>, \<^verbatim>\<open>revertCreatorModeModifications\<close> and
  \<^verbatim>\<open>toggleCreatorMode\<close>.\<close>

definition applyCreatorModeModifications :: "Game \<Rightarrow> Game" where
  "applyCreatorModeModifications g =
     (let g1 = (if \<not> truthy (originalPistolFireRate g)
                then g\<lparr>originalPistolFireRate := Some (fireRate (pistol (weapons g)))\<rparr>
                else g)
      in recomputePistolFireRate
           (g1\<lparr>pistolBaseFireRate := Some (the (originalPistolFireRate g1) / 5)\<rparr>))"

definition revertCreatorModeModifications :: "Game \<Rightarrow> Game" where
  "revertCreatorModeModifications g =
     (if truthy (originalPistolFireRate g)
      then recomputePistolFireRate (g\<lparr>pistolBaseFireRate := originalPistolFireRate g\<rparr>)
      else g)"

definition toggleCreatorMode :: "Game \<Rightarrow> Game" where
  "toggleCreatorMode g =
     (let g1 = g\<lparr>Game.creatorMode := \<not> Game.creatorMode g\<rparr>
      in if Game.creatorMode g1 then applyCreatorModeModifications g1
         else revertCreatorModeModifications g1)"

text \<open>
  The blocks of \<^verbatim>\<open>Game.updatePlaying\<close>, in the order of the source. First the move
  vector: the keyboard's when it is active, else the gesture vector.
\<close>

definition finalVector :: "Game \<Rightarrow> point" where
  "finalVector g =
     (let keyboardVector = input_state.moveVector (inputs (inputManager g));
          gi = gestureInput g;
          gestureVector = (if initialized gi
                           then \<lparr>x = x (moveVector gi), y = - y (moveVector gi)\<rparr>
                           else \<lparr>x = 0, y = 0\<rparr>);
          keyboardActive = (\<bar>x keyboardVector\<bar> > 1 / 100 \<or> \<bar>y keyboardVector\<bar> > 1 / 100)
      in if keyboardActive then keyboardVector else gestureVector)"

text \<open>``Handle player firing'': the gesture aim overrides the mouse position.\<close>

definition handlePlayerFiring :: "collaborators \<Rightarrow> Game \<Rightarrow> Game" where
  "handlePlayerFiring c g =
     (let gestureActive = gestureShootingActive (gestureInput g);
          aim = (if gestureActive then gestureAimTargetGame (gestureInput g) else None)
      in if gestureActive then
           (case aim of
              None \<Rightarrow> g
            | Some a \<Rightarrow>
                Player_fire c (x a) (y a)
                  (g\<lparr>inputManager := (inputManager g)\<lparr>inputs :=
                       (inputs (inputManager g))\<lparr>mouseX := x a, mouseY := y a\<rparr>\<rparr>\<rparr>))
         else
           (if fire (inputs (inputManager g))
            then Player_fire c (mouseX (inputs (inputManager g)))
                   (mouseY (inputs (inputManager g))) g
            else g))"

text \<open>
  The left-hand pinch edge and ``Handle weapon switching''. \<open>t\<close> is the clock reading
  of the tick.
\<close>

definition handleWeaponSwitching :: "real \<Rightarrow> Game \<Rightarrow> Game" where
  "handleWeaponSwitching t g =
     (let leftPinch = leftPinchActive (gestureInput g);
          st = inputs (inputManager g);
          st1 = (if leftPinch \<and> \<not> prevLeftPinchActive g then
                   (if canSwitchWeapon t st then st\<lparr>switchWeapon := True\<rparr> else st)
                 else st);
          g1 = g\<lparr>inputManager := (inputManager g)\<lparr>inputs := st1\<rparr>,
                 prevLeftPinchActive := leftPinch\<rparr>;
          weaponSwitch = switchWeapon (inputs (inputManager g1))
      in if weaponSwitch then
           (let g2 = toggleWeapon g1
            in g2\<lparr>inputManager := (inputManager g2)\<lparr>inputs :=
                    clearWeaponSwitch t (inputs (inputManager g2))\<rparr>\<rparr>)
         else g1)"

text \<open>``Handle creator mode toggle''.\<close>

definition handleCreatorModeToggle :: "real \<Rightarrow> Game \<Rightarrow> Game" where
  "handleCreatorModeToggle t g =
     (if input_state.creatorMode (inputs (inputManager g)) then
        (let g1 = toggleCreatorMode g
         in g1\<lparr>inputManager := (inputManager g1)\<lparr>inputs :=
                 clearCreatorModeToggle t (inputs (inputManager g1))\<rparr>\<rparr>)
      else g)"

text \<open>The two spawn timers.\<close>

definition advanceSpawnTimers :: "collaborators \<Rightarrow> real \<Rightarrow> Game \<Rightarrow> Game" where
  "advanceSpawnTimers c deltaTime g =
     (let g1 = g\<lparr>enemySpawnTimer := enemySpawnTimer g + deltaTime\<rparr>;
          g2 = (if enemySpawnTimer g1 \<ge> ENEMY_SPAWN_INTERVAL
                then (spawnEnemy c g1)\<lparr>enemySpawnTimer := 0\<rparr> else g1);
          g3 = g2\<lparr>pickupSpawnTimer := pickupSpawnTimer g2 + deltaTime\<rparr>
      in if pickupSpawnTimer g3 \<ge> PICKUP_SPAWN_INTERVAL
         then (spawnPickup c g3)\<lparr>pickupSpawnTimer := 0\<rparr> else g3)"

text \<open>``Update pistol haste countdown and expiry''.\<close>

definition updatePistolHaste :: "real \<Rightarrow> Game \<Rightarrow> Game" where
  "updatePistolHaste deltaTime g =
     (if pistolHasteActive g then
        (let g1 = g\<lparr>pistolHasteRemaining := max 0 (pistolHasteRemaining g - deltaTime)\<rparr>
         in if pistolHasteRemaining g1 \<le> 0
            then recomputePistolFireRate (g1\<lparr>pistolHasteActive := False\<rparr>)
            else g1)
      else g)"

text \<open>``Remove dead objects''; pickups stay.\<close>

definition removeDeadObjects :: "Game \<Rightarrow> Game" where
  "removeDeadObjects g =
     g\<lparr>enemies := filter Enemy_isAlive (enemies g),
       projectiles := filter Projectile_isAlive (projectiles g)\<rparr>"

text \<open>\<^verbatim>\<open>Game.updatePlaying\<close>.\<close>

definition updatePlaying :: "collaborators \<Rightarrow> real \<Rightarrow> Game \<Rightarrow> Game" where
  "updatePlaying c deltaTime g =
     (let g1 = g\<lparr>player := (player g)\<lparr>Player.creatorMode := Game.creatorMode g\<rparr>\<rparr>;
          g2 = Player_update c deltaTime (finalVector g1) g1;
          g3 = handlePlayerFiring c g2;
          g4 = handleWeaponSwitching (now c) g3;
          g5 = handleCreatorModeToggle (now c) g4;
          g6 = advanceSpawnTimers c deltaTime g5;
          g7 = updateEntities c deltaTime g6;
          g8 = updatePistolHaste deltaTime g7;
          g9 = handleCollisions g8;
          g10 = removeDeadObjects g9
      in if \<not> Player_isAlive (player g10)
         then g10\<lparr>stateMachine := setState GAME_OVER (stateMachine g10)\<rparr>
         else g10)"

text \<open>\<^verbatim>\<open>Game.updateGameOver\<close>: waiting for restart.\<close>

definition updateGameOver :: "real \<Rightarrow> Game \<Rightarrow> Game" where
  "updateGameOver deltaTime g = g"

text \<open>
  \<^verbatim>\<open>Game.update\<close>: one tick. An error that left \<^verbatim>\<open>InputManager.update\<close> would leave the
  tick too (\<open>Inl\<close>).
\<close>

definition Game_update :: "collaborators \<Rightarrow> real \<Rightarrow> Game \<Rightarrow> js_error + Game" where
  "Game_update c deltaTime g =
     (case InputManager_update deltaTime (inputManager g) of
        Inl error \<Rightarrow> Inl error
      | Inr im \<Rightarrow>
          (let g1 = g\<lparr>inputManager := im\<rparr>;
               g2 = (case currentState (stateMachine g1) of
                       PLAYING \<Rightarrow> updatePlaying c deltaTime g1
                     | GAME_OVER \<Rightarrow> updateGameOver deltaTime g1
                     | _ \<Rightarrow> g1);
               g3 = handleCollisions g2
           in Inr (if \<not> Player_isAlive (player g3)
                    \<and> currentState (stateMachine g3) = PLAYING
                   then g3\<lparr>stateMachine := setState GAME_OVER (stateMachine g3)\<rparr>
                   else g3)))"


section \<open>Runs of ticks and events\<close>










text \<open>
  What the search loop is to find among the pickups \<open>pks\<close>: nothing when none overlaps
  the player, else the index and the distance of an overlapping pickup that no
  overlapping pickup is nearer than.
\<close>

definition nearestAmong :: "Player \<Rightarrow> Pickup list \<Rightarrow> (nat \<times> real) option \<Rightarrow> bool" where
  "nearestAmong p pks nearest =
     (case nearest of
        None \<Rightarrow> (\<forall>k<length pks. \<not> checkCircleCollision p (pks ! k))
      | Some (j, d) \<Rightarrow>
          j < length pks \<and> checkCircleCollision p (pks ! j) \<and>
          d = Utils_distance (x p) (y p) (x (pks ! j)) (y (pks ! j)) \<and>
          (\<forall>k<length pks. checkCircleCollision p (pks ! k) \<longrightarrow>
             d \<le> Utils_distance (x p) (y p) (x (pks ! k)) (y (pks ! k))))"


section \<open>Example states\<close>

text \<open>
  A game as \<^verbatim>\<open>init\<close> leaves it: the player in the middle of the arena, no enemies,
  projectiles or pickups, and the input manager that \<^verbatim>\<open>setupInput\<close> makes of a new one
  (the keyboard provider active and registered as the fallback). The numbers of the
  player and of the weapons are examples.
\<close>

definition examplePlayer :: Player where
  "examplePlayer =
     \<lparr>x = 600, y = 400, radius = 16, Player.hp = 3, maxHp = 3,
      invulnerabilityTimer = 0, invulnerabilityDuration = 1, Player.creatorMode = False\<rparr>"

definition exampleWeapons :: Weapons where
  "exampleWeapons =
     \<lparr>pistol = \<lparr>fireRate = 2 / 10, currentAmmo = \<infinity>\<rparr>,
      machine_gun = \<lparr>fireRate = 1 / 10, currentAmmo = 60\<rparr>,
      knife = \<lparr>fireRate = 5 / 10, currentAmmo = \<infinity>\<rparr>,
      grenade = \<lparr>fireRate = 1, currentAmmo = 5\<rparr>\<rparr>"

definition exampleInputs :: input_state where
  "exampleInputs =
     \<lparr>input_state.moveVector = \<lparr>x = 0, y = 0\<rparr>, fire = False, pickup = False,
      switchWeapon = False, lastWeaponSwitchTime = 0, weaponSwitchCooldown = 2 / 10,
      input_state.creatorMode = False, lastCreatorModeToggleTime = 0,
      creatorModeToggleCooldown = 2 / 10, mouseX = 0, mouseY = 0\<rparr>"

definition exampleInputManager :: InputManager where
  "exampleInputManager =
     \<lparr>providers = [''keyboard-mouse'' \<mapsto> 0, ''gesture'' \<mapsto> 1, ''voice'' \<mapsto> 2],
      objects = [0 \<mapsto> KeyboardMouseProvider_new\<lparr>listening := True\<rparr>,
                 1 \<mapsto> GestureProvider_new, 2 \<mapsto> VoiceProvider_new],
      activeProvider = Some 0, fallbackProvider = Some 0,
      inputs = exampleInputs\<rparr>"

definition exampleGame :: Game where
  "exampleGame =
     \<lparr>stateMachine = \<lparr>currentState = PLAYING, previousState = Some BOOT\<rparr>,
      inputManager = exampleInputManager,
      gestureInput = GestureInputManager_new,
      player = examplePlayer, enemies = [], projectiles = [], pickups = [], killCount = 0,
      enemySpawnTimer = 0, pickupSpawnTimer = 0, Game.creatorMode = False,
      pistolHasteActive = False, pistolHasteRemaining = 0,
      originalPistolFireRate = Some (2 / 10), pistolBaseFireRate = Some (2 / 10),
      weapons = exampleWeapons, currentWeaponKey = ''pistol'', pickupCandidate = None,
      prevLeftPinchActive = False\<rparr>"

text \<open>A tick during which the player stands still and holds fire, nothing spawns and
  no entity changes by its own update.\<close>

definition stillWorld :: collaborators where
  "stillWorld =
     \<lparr>now = 100, Player_update = (\<lambda>deltaTime v g. g), Player_fire = (\<lambda>aimX aimY g. g),
      spawnEnemy = (\<lambda>g. g), spawnPickup = (\<lambda>g. g), updateEntities = (\<lambda>deltaTime g. g)\<rparr>"

text \<open>A player bullet, and an enemy with one hit point that two such bullets overlap.\<close>

definition playerBullet :: Projectile where
  "playerBullet =
     \<lparr>x = 100, y = 100, radius = 4, Projectile.damage = 1, owner = Some ''player'',
      Projectile.alive = True\<rparr>"

definition weakEnemy :: Enemy where
  "weakEnemy =
     \<lparr>x = 100, y = 100, radius = 20, Enemy.hp = 1, Enemy.damage = 1, Enemy.alive = True\<rparr>"

definition twoBulletsGame :: Game where
  "twoBulletsGame = exampleGame\<lparr>enemies := [weakEnemy], projectiles := [playerBullet, playerBullet]\<rparr>"

text \<open>Two living enemies that one player bullet overlaps at once.\<close>

definition nearEnemy :: Enemy where
  "nearEnemy =
     \<lparr>x = 100, y = 100, radius = 20, Enemy.hp = 5, Enemy.damage = 1, Enemy.alive = True\<rparr>"

definition farEnemy :: Enemy where
  "farEnemy =
     \<lparr>x = 110, y = 100, radius = 20, Enemy.hp = 5, Enemy.damage = 1, Enemy.alive = True\<rparr>"

definition twoEnemiesGame :: Game where
  "twoEnemiesGame = exampleGame\<lparr>enemies := [nearEnemy, farEnemy], projectiles := [playerBullet]\<rparr>"

text \<open>A player inside the invulnerability window and a shooter's bullet on top of it.\<close>

definition hurtPlayer :: Player where
  "hurtPlayer = examplePlayer\<lparr>Player.hp := 2, invulnerabilityTimer := 1 / 2\<rparr>"

definition shooterBullet :: Projectile where
  "shooterBullet =
     \<lparr>x = 600, y = 400, radius = 4, Projectile.damage = 1, owner = Some ''shooter'',
      Projectile.alive = True\<rparr>"


text \<open>The F key held down: the keyboard provider has the pickup action among its keys
  and the pickup flag is set.\<close>

definition fKeyHeld :: InputManager where
  "fKeyHeld =
     exampleInputManager
       \<lparr>objects := (objects exampleInputManager)
                    (0 \<mapsto> KeyboardMouseProvider_new\<lparr>listening := True, keys := {''pickup''}\<rparr>),
        inputs := exampleInputs\<lparr>pickup := True\<rparr>\<rparr>"

text \<open>A game that is over, with a heal pickup under the dead player.\<close>

definition healPickup :: Pickup where
  "healPickup = \<lparr>x = 600, y = 400, radius = 28, type = HEAL\<rparr>"

definition gameOverGame :: Game where
  "gameOverGame =
     exampleGame
       \<lparr>stateMachine := \<lparr>currentState = GAME_OVER, previousState = Some PLAYING\<rparr>,
        inputManager := fKeyHeld,
        player := examplePlayer\<lparr>Player.hp := 0\<rparr>,
        pickups := [healPickup]\<rparr>"

text \<open>A running game with two pickups that both overlap the player, the second of the
  array the nearer one.\<close>

definition ammoPickup :: Pickup where
  "ammoPickup = \<lparr>x = 600, y = 410, radius = 28, type = MG_AMMO\<rparr>"

definition grenadePickup :: Pickup where
  "grenadePickup = \<lparr>x = 600, y = 420, radius = 28, type = GRENADE\<rparr>"

definition twoPickupsGame :: Game where
  "twoPickupsGame =
     exampleGame\<lparr>inputManager := fKeyHeld, pickups := [grenadePickup, ammoPickup]\<rparr>"

text \<open>
  A provider whose \<^verbatim>\<open>update\<close> throws, registered as \<^verbatim>\<open>'gesture'\<close> next to the keyboard
  provider (the fallback) and made the active one.
\<close>

definition brokenProvider :: Provider where
  "brokenProvider =
     \<lparr>name = ''gesture'', keys = {}, mouseButtons = {}, listening = False,
      update = (\<lambda>deltaTime ks mbs st. Inl (JsError ''camera lost'', st))\<rparr>"

definition brokenInputManager :: InputManager where
  "brokenInputManager =
     setActiveProvider ''gesture''
       (registerProvider ''gesture'' 1 brokenProvider False
         (registerProvider ''keyboard-mouse'' 0 KeyboardMouseProvider_new True InputManager_new))"





text \<open>
  A detected hand of 21 landmarks whose thumb tip (landmark 4) is at (0.5, 0.5) and
  whose index fingertip (landmark 8) is \<open>d\<close> to the right of it; and four frames of a
  right hand, without an overlay, with the tip distances 0.05, 0.03, 0.05 and 0.045.
\<close>

definition pinchingHand :: "string \<Rightarrow> real \<Rightarrow> hand" where
  "pinchingHand side d =
     \<lparr>label = side,
      landmarks = replicate 8 \<lparr>x = 1 / 2, y = 1 / 2\<rparr> @ [\<lparr>x = 1 / 2 + d, y = 1 / 2\<rparr>]
                    @ replicate 12 \<lparr>x = 1 / 2, y = 1 / 2\<rparr>\<rparr>"

definition rightPinchFrames :: "((real \<times> real) option \<times> hand list) list" where
  "rightPinchFrames =
     [(None, [pinchingHand ''Right'' (5 / 100)]), (None, [pinchingHand ''Right'' (3 / 100)]),
      (None, [pinchingHand ''Right'' (5 / 100)]), (None, [pinchingHand ''Right'' (45 / 1000)])]"

text \<open>A gesture input manager whose smoothed aim point is (100, 100).\<close>

definition aimingManager :: GestureInputManager where
  "aimingManager = GestureInputManager_new\<lparr>gestureAimSmoothed := Some \<lparr>x = 100, y = 100\<rparr>\<rparr>"

text \<open>The same manager with a maximum step of 10 pixels.\<close>

definition cappedManager :: GestureInputManager where
  "cappedManager = aimingManager\<lparr>aimMaxStepPx := 10\<rparr>"


section \<open>Properties of the collision engine\<close>

lemma examplePlayer_alive: "Player_isAlive examplePlayer"
  by (simp add: Player_isAlive_def examplePlayer_def)

lemma setupInput_new: "setupInput InputManager_new = exampleInputManager"
  by (simp add: setupInput_def InputManager_new_def registerProvider_def
      setActiveProvider_def activate_def deactivate_def Let_def fun_upd_twist
      exampleInputManager_def exampleInputs_def)

lemma example_input_update:
  "InputManager_update dt exampleInputManager = Inr exampleInputManager"
  by (simp add: exampleInputManager_def exampleInputs_def InputManager_update_def
      KeyboardMouseProvider_new_def KeyboardMouseProvider_update_def)

text \<open>The overlap test without the square root.\<close>

lemma sqrt_less_square: "0 \<le> v \<Longrightarrow> sqrt v < r \<longleftrightarrow> 0 < r \<and> v < r * r"
proof (cases "0 < r")
  case True
  assume "0 \<le> v"
  have "sqrt v < r \<longleftrightarrow> sqrt v < sqrt (r * r)" using True by simp
  also have "\<dots> \<longleftrightarrow> v < r * r" by (rule real_sqrt_less_iff)
  finally show ?thesis using True by simp
next
  case False
  assume "0 \<le> v"
  then have "0 \<le> sqrt v" by simp
  with False show ?thesis by linarith
qed

lemma checkCircleCollision_squares:
  "checkCircleCollision a b \<longleftrightarrow>
     0 < radius a + radius b + COLLISION_EPSILON \<and>
     (x b - x a) * (x b - x a) + (y b - y a) * (y b - y a)
       < (radius a + radius b + COLLISION_EPSILON) * (radius a + radius b + COLLISION_EPSILON)"
  unfolding checkCircleCollision_def Let_def
  by (rule sqrt_less_square) simp

lemmas collide = checkCircleCollision_squares COLLISION_EPSILON_def

text \<open>A tick of \<open>stillWorld\<close> in which no input is pending and no timer runs out
  comes down to the collision pass, the removal of the dead and the game-over check.\<close>

lemma stillWorld_simps [simp]:
  "Player_update stillWorld dt v g = g"
  "Player_fire stillWorld ax ay g = g"
  "spawnEnemy stillWorld g = g"
  "spawnPickup stillWorld g = g"
  "updateEntities stillWorld dt g = g"
  by (simp_all add: stillWorld_def)

lemma handlePlayerFiring_idle:
  "\<not> gestureShootingActive (gestureInput g) \<Longrightarrow> \<not> fire (inputs (inputManager g)) \<Longrightarrow>
   handlePlayerFiring c g = g"
  by (simp add: handlePlayerFiring_def)

lemma handleWeaponSwitching_idle:
  "\<not> leftPinchActive (gestureInput g) \<Longrightarrow> \<not> switchWeapon (inputs (inputManager g)) \<Longrightarrow>
   handleWeaponSwitching t g = g\<lparr>prevLeftPinchActive := False\<rparr>"
  by (simp add: handleWeaponSwitching_def)

lemma handleCreatorModeToggle_idle:
  "\<not> input_state.creatorMode (inputs (inputManager g)) \<Longrightarrow> handleCreatorModeToggle t g = g"
  by (simp add: handleCreatorModeToggle_def)

lemma advanceSpawnTimers_idle:
  "enemySpawnTimer g + dt < ENEMY_SPAWN_INTERVAL \<Longrightarrow>
   pickupSpawnTimer g + dt < PICKUP_SPAWN_INTERVAL \<Longrightarrow>
   advanceSpawnTimers c dt g =
     g\<lparr>enemySpawnTimer := enemySpawnTimer g + dt, pickupSpawnTimer := pickupSpawnTimer g + dt\<rparr>"
  by (simp add: advanceSpawnTimers_def)

lemma updatePistolHaste_idle: "\<not> pistolHasteActive g \<Longrightarrow> updatePistolHaste dt g = g"
  by (simp add: updatePistolHaste_def)

lemma updatePlaying_still:
  assumes "\<not> gestureShootingActive (gestureInput g)" "\<not> fire (inputs (inputManager g))"
    "\<not> leftPinchActive (gestureInput g)" "\<not> switchWeapon (inputs (inputManager g))"
    "\<not> input_state.creatorMode (inputs (inputManager g))"
    "enemySpawnTimer g + dt < ENEMY_SPAWN_INTERVAL"
    "pickupSpawnTimer g + dt < PICKUP_SPAWN_INTERVAL"
    "\<not> pistolHasteActive g"
  shows "updatePlaying stillWorld dt g =
     (let g10 = removeDeadObjects (handleCollisions
                  (g\<lparr>player := (player g)\<lparr>Player.creatorMode := Game.creatorMode g\<rparr>,
                     prevLeftPinchActive := False,
                     enemySpawnTimer := enemySpawnTimer g + dt,
                     pickupSpawnTimer := pickupSpawnTimer g + dt\<rparr>))
      in if \<not> Player_isAlive (player g10)
         then g10\<lparr>stateMachine := setState GAME_OVER (stateMachine g10)\<rparr>
         else g10)"
  using assms
  by (simp add: updatePlaying_def handlePlayerFiring_idle handleWeaponSwitching_idle
      handleCreatorModeToggle_idle advanceSpawnTimers_idle updatePistolHaste_idle)

lemmas example_defs =
  exampleGame_def examplePlayer_def exampleWeapons_def exampleInputManager_def
  exampleInputs_def GestureInputManager_new_def

lemmas interval_defs = ENEMY_SPAWN_INTERVAL_def PICKUP_SPAWN_INTERVAL_def

subsection \<open>Two bullets on one enemy\<close>

lemma twoBullets_pass:
  "handleCollisions (twoBulletsGame\<lparr>enemySpawnTimer := a, pickupSpawnTimer := b\<rparr>) =
   twoBulletsGame\<lparr>enemySpawnTimer := a, pickupSpawnTimer := b,
     enemies := [weakEnemy\<lparr>Enemy.hp := - 1, Enemy.alive := False\<rparr>],
     projectiles := [playerBullet\<lparr>Projectile.alive := False\<rparr>,
                     playerBullet\<lparr>Projectile.alive := False\<rparr>],
     killCount := 2\<rparr>"
  by (simp add: handleCollisions_def twoBulletsGame_def exampleGame_def examplePlayer_def
      playerBullet_def weakEnemy_def collide Enemy_takeDamage_def Enemy_isAlive_def
      playerVsPickups_def Let_def)

lemma twoBullets_updatePlaying:
  "updatePlaying stillWorld (1 / 60) twoBulletsGame =
   twoBulletsGame\<lparr>enemySpawnTimer := 1 / 60, pickupSpawnTimer := 1 / 60,
     enemies := [], projectiles := [], killCount := 2\<rparr>"
proof -
  have q: "twoBulletsGame\<lparr>player := (player twoBulletsGame)
               \<lparr>Player.creatorMode := Game.creatorMode twoBulletsGame\<rparr>,
             prevLeftPinchActive := False,
             enemySpawnTimer := enemySpawnTimer twoBulletsGame + 1 / 60,
             pickupSpawnTimer := pickupSpawnTimer twoBulletsGame + 1 / 60\<rparr>
      = twoBulletsGame\<lparr>enemySpawnTimer := 1 / 60, pickupSpawnTimer := 1 / 60\<rparr>"
    by (simp add: twoBulletsGame_def exampleGame_def examplePlayer_def)
  show ?thesis
    apply (subst updatePlaying_still)
            apply (simp_all add: twoBulletsGame_def example_defs interval_defs)[8]
    apply (simp only: q twoBullets_pass)
    apply (simp add: removeDeadObjects_def Enemy_isAlive_def Projectile_isAlive_def
        Player_isAlive_def)
    apply (simp add: twoBulletsGame_def exampleGame_def examplePlayer_def)
    done
qed

lemma twoBullets_second_pass:
  "handleCollisions (twoBulletsGame\<lparr>enemySpawnTimer := 1 / 60, pickupSpawnTimer := 1 / 60,
     enemies := [], projectiles := [], killCount := 2\<rparr>) =
   twoBulletsGame\<lparr>enemySpawnTimer := 1 / 60, pickupSpawnTimer := 1 / 60,
     enemies := [], projectiles := [], killCount := 2\<rparr>"
  by (simp add: handleCollisions_def twoBulletsGame_def exampleGame_def playerVsPickups_def)

text \<open>
  Claim C1 (the code at an input where the claim fails). One enemy with one hit point
  and two player bullets that both overlap it: the enemy dies once, and the kill counter
  goes from 0 to 2, in the collision pass and in the whole tick.
\<close>

theorem two_bullets_count_one_death_twice:
  "length (enemies twoBulletsGame) = 1 \<and> killCount twoBulletsGame = 0 \<and>
   killCount (handleCollisions twoBulletsGame) = 2 \<and>
   (\<exists>g'. Game_update stillWorld (1 / 60) twoBulletsGame = Inr g' \<and> killCount g' = 2)"
proof -
  have a: "length (enemies twoBulletsGame) = 1 \<and> killCount twoBulletsGame = 0"
    by (simp add: twoBulletsGame_def exampleGame_def)
  have "handleCollisions (twoBulletsGame\<lparr>enemySpawnTimer := enemySpawnTimer twoBulletsGame,
          pickupSpawnTimer := pickupSpawnTimer twoBulletsGame\<rparr>) =
        twoBulletsGame\<lparr>enemySpawnTimer := enemySpawnTimer twoBulletsGame,
          pickupSpawnTimer := pickupSpawnTimer twoBulletsGame,
          enemies := [weakEnemy\<lparr>Enemy.hp := - 1, Enemy.alive := False\<rparr>],
          projectiles := [playerBullet\<lparr>Projectile.alive := False\<rparr>,
                          playerBullet\<lparr>Projectile.alive := False\<rparr>],
          killCount := 2\<rparr>"
    by (rule twoBullets_pass)
  then have b: "killCount (handleCollisions twoBulletsGame) = 2"
    by simp
  have im: "inputManager twoBulletsGame = exampleInputManager"
    and st: "currentState (stateMachine twoBulletsGame) = PLAYING"
    by (simp_all add: twoBulletsGame_def exampleGame_def)
  have c: "Game_update stillWorld (1 / 60) twoBulletsGame =
        Inr (twoBulletsGame\<lparr>enemySpawnTimer := 1 / 60, pickupSpawnTimer := 1 / 60,
               enemies := [], projectiles := [], killCount := 2\<rparr>)"
    unfolding Game_update_def im example_input_update
    apply (simp add: st del: One_nat_def)
    apply (simp only: im [symmetric])
    apply (simp add: twoBullets_updatePlaying twoBullets_second_pass)
    apply (simp add: twoBulletsGame_def exampleGame_def examplePlayer_alive)
    done
  show ?thesis using a b c by simp
qed

subsection \<open>One bullet on two enemies\<close>

lemma projectileVsEnemies_ignores_alive:
  "snd (projectileVsEnemies (projectile\<lparr>Projectile.alive := b\<rparr>) es kills) =
   snd (projectileVsEnemies projectile es kills)"
proof (induction es arbitrary: projectile kills)
  case Nil
  show ?case by simp
next
  case (Cons e es)
  have same: "checkCircleCollision (projectile\<lparr>Projectile.alive := b\<rparr>) e =
      checkCircleCollision projectile e"
    by (simp add: checkCircleCollision_def)
  show ?case
  proof (cases "checkCircleCollision projectile e")
    case True
    then show ?thesis by (simp add: same Let_def)
  next
    case False
    then show ?thesis using Cons.IH [of projectile kills] by (simp add: same case_prod_beta)
  qed
qed

text \<open>
  Claim C9. The inner loop never reads the projectile's alive flag: what it does to the
  enemies and to the kill counter is the same for a projectile whose flag is already
  false. And there is a configuration, one player bullet overlapping two living enemies,
  in which one collision pass takes the bullet's damage off both enemies.
\<close>

theorem dead_projectile_still_hits:
  "(\<forall>projectile es kills.
      snd (projectileVsEnemies (projectile\<lparr>Projectile.alive := False\<rparr>) es kills) =
      snd (projectileVsEnemies projectile es kills)) \<and>
   projectiles twoEnemiesGame = [playerBullet] \<and> enemies twoEnemiesGame = [nearEnemy, farEnemy] \<and>
   owner playerBullet = Some ''player'' \<and> Projectile_isAlive playerBullet \<and>
   checkCircleCollision playerBullet nearEnemy \<and> checkCircleCollision playerBullet farEnemy \<and>
   Enemy_isAlive nearEnemy \<and> Enemy_isAlive farEnemy \<and>
   enemies (handleCollisions twoEnemiesGame) =
     [nearEnemy\<lparr>Enemy.hp := Enemy.hp nearEnemy - Projectile.damage playerBullet\<rparr>,
      farEnemy\<lparr>Enemy.hp := Enemy.hp farEnemy - Projectile.damage playerBullet\<rparr>]"
proof -
  have "enemies (handleCollisions twoEnemiesGame) =
     [nearEnemy\<lparr>Enemy.hp := Enemy.hp nearEnemy - Projectile.damage playerBullet\<rparr>,
      farEnemy\<lparr>Enemy.hp := Enemy.hp farEnemy - Projectile.damage playerBullet\<rparr>]"
    by (simp add: handleCollisions_def twoEnemiesGame_def exampleGame_def examplePlayer_def
        playerBullet_def nearEnemy_def farEnemy_def collide Enemy_takeDamage_def
        Enemy_isAlive_def playerVsPickups_def Let_def)
  moreover have "checkCircleCollision playerBullet nearEnemy \<and>
      checkCircleCollision playerBullet farEnemy"
    by (simp add: playerBullet_def nearEnemy_def farEnemy_def collide)
  ultimately show ?thesis
    by (simp add: projectileVsEnemies_ignores_alive twoEnemiesGame_def Enemy_isAlive_def
        Projectile_isAlive_def playerBullet_def nearEnemy_def farEnemy_def)
qed

subsection \<open>The invulnerability window\<close>

lemma playerVsEnemies_invulnerable:
  "\<not> Player_canTakeDamage p \<Longrightarrow> playerVsEnemies p es = p"
  by (induction es) simp_all

text \<open>
  Claim C10. While the player cannot take damage, the pass of the enemy projectiles
  against the player changes nothing: the player (its hit points among the rest) and
  every projectile (its alive flag among the rest) are as before, whether or not a
  projectile overlaps the player.
\<close>

theorem invulnerable_player_keeps_projectiles:
  assumes "\<not> Player_canTakeDamage p"
  shows "enemyProjectilesVsPlayer ps p = (ps, p)"
  using assms by (induction ps) simp_all

theorem invulnerable_player_keeps_projectiles_witness:
  "\<not> Player_canTakeDamage hurtPlayer \<and> checkCircleCollision shooterBullet hurtPlayer \<and>
   owner shooterBullet = Some ''shooter'' \<and> Projectile.alive shooterBullet \<and>
   enemyProjectilesVsPlayer [shooterBullet] hurtPlayer = ([shooterBullet], hurtPlayer)"
  using invulnerable_player_keeps_projectiles [of hurtPlayer "[shooterBullet]"]
  by (simp add: Player_canTakeDamage_def hurtPlayer_def examplePlayer_def shooterBullet_def
      collide)

section \<open>Properties of the pickup pass\<close>

lemma nearestAmong_snoc_miss:
  assumes "nearestAmong p pre nearest" "\<not> checkCircleCollision p pk"
  shows "nearestAmong p (pre @ [pk]) nearest"
  using assms
  by (auto simp: nearestAmong_def nth_append less_Suc_eq split: option.splits)

lemma nearestAmong_snoc_far:
  assumes "nearestAmong p pre (Some (j, d))" "checkCircleCollision p pk"
    "\<not> Utils_distance (x p) (y p) (x pk) (y pk) < d"
  shows "nearestAmong p (pre @ [pk]) (Some (j, d))"
  using assms
  by (auto simp: nearestAmong_def nth_append less_Suc_eq)

lemma nearestAmong_snoc_near:
  assumes "nearestAmong p pre nearest" "checkCircleCollision p pk"
    "case nearest of None \<Rightarrow> True | Some (j, d) \<Rightarrow> Utils_distance (x p) (y p) (x pk) (y pk) < d"
  shows "nearestAmong p (pre @ [pk])
           (Some (length pre, Utils_distance (x p) (y p) (x pk) (y pk)))"
  using assms
  by (auto simp: nearestAmong_def nth_append less_Suc_eq split: option.splits)

lemma nearestPickup_nearestAmong:
  "nearestAmong p pre nearest \<Longrightarrow>
   nearestAmong p (pre @ pks) (nearestPickup p pks (length pre) nearest)"
proof (induction pks arbitrary: pre nearest)
  case Nil
  then show ?case by simp
next
  case (Cons pk pks)
  let ?d = "Utils_distance (x p) (y p) (x pk) (y pk)"
  show ?case
  proof (cases "checkCircleCollision p pk")
    case False
    from Cons.IH [OF nearestAmong_snoc_miss [OF Cons.prems False]]
    show ?thesis using False by simp
  next
    case True
    show ?thesis
    proof (cases "case nearest of None \<Rightarrow> True | Some (j, d) \<Rightarrow> ?d < d")
      case near: True
      from Cons.IH [OF nearestAmong_snoc_near [OF Cons.prems True near]]
      show ?thesis using True near by (simp add: Let_def)
    next
      case far: False
      then obtain j d where n: "nearest = Some (j, d)" and "\<not> ?d < d"
        by (cases nearest) auto
      with Cons.prems True have "nearestAmong p (pre @ [pk]) (Some (j, d))"
        by (simp add: nearestAmong_snoc_far)
      from Cons.IH [OF this] show ?thesis using True far n by (simp add: Let_def)
    qed
  qed
qed

lemma nearestPickup_whole: "nearestAmong p pks (nearestPickup p pks 0 None)"
  using nearestPickup_nearestAmong [of p "[]" None pks] by (simp add: nearestAmong_def)

lemma applyPickupEffect_pickups [simp]: "pickups (applyPickupEffect ty g) = pickups g"
  by (cases ty) (simp_all add: recomputePistolFireRate_def Let_def)

text \<open>
  One run of the pickup part takes at most one pickup out of the array: a nearest
  overlapping one, and only while the F key or the right-hand pinch confirms.
\<close>

lemma playerVsPickups_at_most_nearest:
  "pickups (playerVsPickups g) = pickups g \<or>
   (\<exists>i<length (pickups g).
      (isPickingUp (inputManager g) \<or> isRightPinchActive (gestureInput g)) \<and>
      nearestAmong (player g) (pickups g)
        (Some (i, Utils_distance (x (player g)) (y (player g))
                    (x (pickups g ! i)) (y (pickups g ! i)))) \<and>
      pickups (playerVsPickups g) = splice1 (pickups g) i)"
proof (cases "nearestPickup (player g) (pickups g) 0 None")
  case None
  then show ?thesis by (simp add: playerVsPickups_def)
next
  case (Some a)
  obtain i d where a: "a = (i, d)" by (cases a)
  have n: "nearestAmong (player g) (pickups g) (Some (i, d))"
    using nearestPickup_whole [of "player g" "pickups g"] Some a by simp
  then have d: "d = Utils_distance (x (player g)) (y (player g))
      (x (pickups g ! i)) (y (pickups g ! i))" and i: "i < length (pickups g)"
    by (simp_all add: nearestAmong_def)
  show ?thesis
  proof (cases "isPickingUp (inputManager g) \<or> isRightPinchActive (gestureInput g)")
    case True
    then have "pickups (playerVsPickups g) = splice1 (pickups g) i"
      using Some a by (simp add: playerVsPickups_def Let_def)
    with True n d i show ?thesis by blast
  next
    case False
    then show ?thesis using Some a by (simp add: playerVsPickups_def Let_def)
  qed
qed

lemma fKeyHeld_keyDown:
  "handleKeyDown t ''KeyF'' (KeyboardMouseProvider_new\<lparr>listening := True\<rparr>, exampleInputs) =
     (KeyboardMouseProvider_new\<lparr>listening := True, keys := {''pickup''}\<rparr>,
      exampleInputs\<lparr>pickup := True\<rparr>)"
  by (simp add: handleKeyDown_def keyMap_def KeyboardMouseProvider_new_def)

lemma fKeyHeld_update: "InputManager_update dt fKeyHeld = Inr fKeyHeld"
  by (simp add: fKeyHeld_def exampleInputManager_def exampleInputs_def InputManager_update_def
      KeyboardMouseProvider_new_def KeyboardMouseProvider_update_def)

subsection \<open>Two pickups in one tick\<close>

text \<open>In the playing state, a tick runs the collision pass once more on what
  \<^verbatim>\<open>updatePlaying\<close>, which ends with a pass of its own, has left.\<close>

lemma tick_while_playing:
  assumes "currentState (stateMachine g) = PLAYING"
    "InputManager_update dt (inputManager g) = Inr im"
  shows "\<exists>g'. Game_update c dt g = Inr g' \<and>
      pickups g' = pickups (handleCollisions (updatePlaying c dt (g\<lparr>inputManager := im\<rparr>))) \<and>
      killCount g' = killCount (handleCollisions (updatePlaying c dt (g\<lparr>inputManager := im\<rparr>)))"
  using assms by (simp add: Game_update_def Let_def)

lemmas pickup_pass_defs =
  handleCollisions_def exampleGame_def examplePlayer_def collide playerVsPickups_def Let_def
  isPickingUp_def fKeyHeld_def exampleInputManager_def exampleInputs_def splice1_def
  Utils_distance_def exampleWeapons_def

lemma twoPickups_pass:
  "handleCollisions (twoPickupsGame\<lparr>enemySpawnTimer := a, pickupSpawnTimer := b\<rparr>) =
   twoPickupsGame\<lparr>enemySpawnTimer := a, pickupSpawnTimer := b, pickups := [grenadePickup],
     weapons := exampleWeapons\<lparr>machine_gun := \<lparr>fireRate = 1 / 10, currentAmmo = 80\<rparr>\<rparr>\<rparr>"
  by (simp add: twoPickupsGame_def ammoPickup_def grenadePickup_def pickup_pass_defs)

lemma twoPickups_second_pass:
  "handleCollisions (twoPickupsGame\<lparr>enemySpawnTimer := a, pickupSpawnTimer := b,
     pickups := [grenadePickup],
     weapons := exampleWeapons\<lparr>machine_gun := \<lparr>fireRate = 1 / 10, currentAmmo = 80\<rparr>\<rparr>\<rparr>) =
   twoPickupsGame\<lparr>enemySpawnTimer := a, pickupSpawnTimer := b, pickups := [],
     weapons := exampleWeapons\<lparr>machine_gun := \<lparr>fireRate = 1 / 10, currentAmmo = 80\<rparr>,
                               grenade := \<lparr>fireRate = 1, currentAmmo = 10\<rparr>\<rparr>\<rparr>"
  by (simp add: twoPickupsGame_def ammoPickup_def grenadePickup_def pickup_pass_defs)

lemma twoPickups_updatePlaying:
  "updatePlaying stillWorld (1 / 60) twoPickupsGame =
   twoPickupsGame\<lparr>enemySpawnTimer := 1 / 60, pickupSpawnTimer := 1 / 60,
     pickups := [grenadePickup],
     weapons := exampleWeapons\<lparr>machine_gun := \<lparr>fireRate = 1 / 10, currentAmmo = 80\<rparr>\<rparr>\<rparr>"
proof -
  have q: "twoPickupsGame\<lparr>player := (player twoPickupsGame)
               \<lparr>Player.creatorMode := Game.creatorMode twoPickupsGame\<rparr>,
             prevLeftPinchActive := False,
             enemySpawnTimer := enemySpawnTimer twoPickupsGame + 1 / 60,
             pickupSpawnTimer := pickupSpawnTimer twoPickupsGame + 1 / 60\<rparr>
      = twoPickupsGame\<lparr>enemySpawnTimer := 1 / 60, pickupSpawnTimer := 1 / 60\<rparr>"
    by (simp add: twoPickupsGame_def exampleGame_def examplePlayer_def)
  show ?thesis
    apply (subst updatePlaying_still)
            apply (simp_all add: twoPickupsGame_def fKeyHeld_def example_defs interval_defs)[8]
    apply (simp only: q twoPickups_pass)
    apply (simp add: removeDeadObjects_def Player_isAlive_def)
    apply (simp add: twoPickupsGame_def exampleGame_def examplePlayer_def)
    done
qed

text \<open>
  Claim C2 (the code at an input where the claim fails). Two pickups overlap the player
  and the F key is held. One collision pass collects the nearer one only; the tick runs
  the pass twice, once in \<^verbatim>\<open>updatePlaying\<close> and once more in \<^verbatim>\<open>update\<close>, and collects both:
  the machine gun gets its 20 rounds, the grenades their 5, and no pickup is left.
\<close>

theorem two_pickups_collected_in_one_tick:
  "currentState (stateMachine twoPickupsGame) = PLAYING \<and>
   pickups twoPickupsGame = [grenadePickup, ammoPickup] \<and>
   checkCircleCollision (player twoPickupsGame) grenadePickup \<and>
   checkCircleCollision (player twoPickupsGame) ammoPickup \<and>
   pickups (handleCollisions twoPickupsGame) = [grenadePickup] \<and>
   (\<exists>g'. Game_update stillWorld (1 / 60) twoPickupsGame = Inr g' \<and>
         pickups g' = [] \<and>
         currentAmmo (machine_gun (weapons g')) =
           currentAmmo (machine_gun (weapons twoPickupsGame)) + 20 \<and>
         currentAmmo (grenade (weapons g')) =
           currentAmmo (grenade (weapons twoPickupsGame)) + 5)"
proof -
  have a: "currentState (stateMachine twoPickupsGame) = PLAYING \<and>
      pickups twoPickupsGame = [grenadePickup, ammoPickup] \<and>
      checkCircleCollision (player twoPickupsGame) grenadePickup \<and>
      checkCircleCollision (player twoPickupsGame) ammoPickup"
    by (simp add: twoPickupsGame_def exampleGame_def examplePlayer_def ammoPickup_def
        grenadePickup_def collide)
  have "handleCollisions (twoPickupsGame\<lparr>enemySpawnTimer := enemySpawnTimer twoPickupsGame,
          pickupSpawnTimer := pickupSpawnTimer twoPickupsGame\<rparr>) =
        twoPickupsGame\<lparr>enemySpawnTimer := enemySpawnTimer twoPickupsGame,
          pickupSpawnTimer := pickupSpawnTimer twoPickupsGame, pickups := [grenadePickup],
          weapons := exampleWeapons\<lparr>machine_gun := \<lparr>fireRate = 1 / 10, currentAmmo = 80\<rparr>\<rparr>\<rparr>"
    by (rule twoPickups_pass)
  then have b: "pickups (handleCollisions twoPickupsGame) = [grenadePickup]"
    by simp
  have im: "inputManager twoPickupsGame = fKeyHeld"
    and st: "currentState (stateMachine twoPickupsGame) = PLAYING"
    by (simp_all add: twoPickupsGame_def exampleGame_def)
  have c: "Game_update stillWorld (1 / 60) twoPickupsGame =
        Inr (twoPickupsGame\<lparr>enemySpawnTimer := 1 / 60, pickupSpawnTimer := 1 / 60,
               pickups := [],
               weapons := exampleWeapons
                 \<lparr>machine_gun := \<lparr>fireRate = 1 / 10, currentAmmo = 80\<rparr>,
                  grenade := \<lparr>fireRate = 1, currentAmmo = 10\<rparr>\<rparr>\<rparr>)"
    unfolding Game_update_def im fKeyHeld_update
    apply (simp add: st)
    apply (simp only: im [symmetric])
    apply (simp add: twoPickups_updatePlaying twoPickups_second_pass)
    apply (simp add: twoPickupsGame_def exampleGame_def examplePlayer_alive)
    done
  have d: "currentAmmo (machine_gun (weapons twoPickupsGame)) = 60 \<and>
      currentAmmo (grenade (weapons twoPickupsGame)) = 5"
    by (simp add: twoPickupsGame_def exampleGame_def exampleWeapons_def)
  show ?thesis using a b c d by simp
qed

subsection \<open>Collisions after the game is over\<close>

text \<open>In every state but the playing one, a tick is the update of the input followed by
  the collision pass.\<close>

lemma applyPickupEffect_stateMachine [simp]:
  "stateMachine (applyPickupEffect ty g) = stateMachine g"
  by (cases ty) (simp_all add: recomputePistolFireRate_def Let_def)

lemma handleCollisions_stateMachine [simp]:
  "stateMachine (handleCollisions g) = stateMachine g"
  by (simp add: handleCollisions_def playerVsPickups_def Let_def
      split: prod.splits option.splits)

lemma tick_outside_playing:
  assumes "currentState (stateMachine g) \<noteq> PLAYING"
    "InputManager_update dt (inputManager g) = Inr im"
  shows "Game_update c dt g = Inr (handleCollisions (g\<lparr>inputManager := im\<rparr>))"
  using assms
  by (cases "currentState (stateMachine g)")
     (simp_all add: Game_update_def updateGameOver_def Let_def)

lemma gameOver_pass:
  "handleCollisions gameOverGame =
     gameOverGame\<lparr>player := examplePlayer\<lparr>Player.hp := 1\<rparr>, pickups := []\<rparr>"
  by (simp add: gameOverGame_def healPickup_def pickup_pass_defs)

text \<open>
  Claim C3 (the code at an input where the claim fails). The game is over, a heal pickup
  lies under the dead player and the F key is held. Whatever the clock and the
  collaborators, the tick still runs the collision pass: the pickup is collected and the
  player's hit points go from 0 to 1, while the state stays \<open>GAME_OVER\<close>.
\<close>

theorem game_over_still_resolves_collisions:
  "currentState (stateMachine gameOverGame) = GAME_OVER \<and>
   Player.hp (player gameOverGame) = 0 \<and> pickups gameOverGame = [healPickup] \<and>
   (\<exists>g'. Game_update c dt gameOverGame = Inr g' \<and>
         currentState (stateMachine g') = GAME_OVER \<and>
         Player.hp (player g') = 1 \<and> pickups g' = [])"
proof -
  have im: "inputManager gameOverGame = fKeyHeld"
    and st: "currentState (stateMachine gameOverGame) = GAME_OVER"
    by (simp_all add: gameOverGame_def exampleGame_def)
  have same: "gameOverGame\<lparr>inputManager := fKeyHeld\<rparr> = gameOverGame"
    by (simp add: gameOverGame_def exampleGame_def)
  have "Game_update c dt gameOverGame =
      Inr (handleCollisions (gameOverGame\<lparr>inputManager := fKeyHeld\<rparr>))"
    by (rule tick_outside_playing) (simp_all add: st im fKeyHeld_update)
  then have "Game_update c dt gameOverGame =
      Inr (gameOverGame\<lparr>player := examplePlayer\<lparr>Player.hp := 1\<rparr>, pickups := []\<rparr>)"
    by (simp only: same gameOver_pass)
  then show ?thesis
    by (simp add: gameOverGame_def exampleGame_def examplePlayer_def)
qed

section \<open>Properties of the pistol haste\<close>






section \<open>Properties of the input manager\<close>

lemma setActiveProvider_active:
  "providers im nm = Some r \<Longrightarrow> activeProvider (setActiveProvider nm im) = Some r"
  by (simp add: setActiveProvider_def activate_def deactivate_def Let_def split: option.splits)

text \<open>
  Claim C7. When the \<^verbatim>\<open>update\<close> of the active provider throws, \<^verbatim>\<open>InputManager.update\<close>
  returns normally. If a fallback provider is set, is another object than the active one
  and is in the registry under its own name, it is the active provider afterwards; with
  no fallback, or with the fallback being the active provider, the active provider stays.
  The tick of any game with this input manager returns normally as well. (The console
  warning is not part of the state.)
\<close>

theorem provider_fault_falls_back:
  assumes "activeProvider im = Some a" "objects im a = Some p"
    "update p deltaTime (keys p) (mouseButtons p) (inputs im) = Inl (error, st)"
  shows "\<exists>im'. InputManager_update deltaTime im = Inr im' \<and>
      (\<forall>f pf. fallbackProvider im = Some f \<and> f \<noteq> a \<and> objects im f = Some pf \<and>
               providers im (name pf) = Some f \<longrightarrow> activeProvider im' = Some f) \<and>
      (fallbackProvider im = None \<or> fallbackProvider im = Some a \<longrightarrow>
         activeProvider im' = Some a) \<and>
      (\<forall>c g. inputManager g = im \<longrightarrow> (\<exists>g'. Game_update c deltaTime g = Inr g'))"
proof -
  let ?im = "fallbackToDefault (im\<lparr>inputs := st\<rparr>)"
  have u: "InputManager_update deltaTime im = Inr ?im"
    using assms by (simp add: InputManager_update_def)
  have s: "\<forall>f pf. fallbackProvider im = Some f \<and> f \<noteq> a \<and> objects im f = Some pf \<and>
               providers im (name pf) = Some f \<longrightarrow> activeProvider ?im = Some f"
    using assms(1) by (auto simp: fallbackToDefault_def setActiveProvider_active)
  have k: "fallbackProvider im = None \<or> fallbackProvider im = Some a \<longrightarrow>
         activeProvider ?im = Some a"
    using assms(1) by (auto simp: fallbackToDefault_def)
  have t: "\<forall>c g. inputManager g = im \<longrightarrow> (\<exists>g'. Game_update c deltaTime g = Inr g')"
    by (simp add: Game_update_def u Let_def)
  show ?thesis using u s k t by blast
qed

text \<open>The broken gesture provider is active, the keyboard provider is the fallback: the
  tick switches to the keyboard provider.\<close>

lemma brokenInputManager_eq:
  "brokenInputManager =
     \<lparr>providers = [''keyboard-mouse'' \<mapsto> 0, ''gesture'' \<mapsto> 1],
      objects = [0 \<mapsto> KeyboardMouseProvider_new, 1 \<mapsto> brokenProvider\<lparr>listening := True\<rparr>],
      activeProvider = Some 1, fallbackProvider = Some 0,
      inputs = exampleInputs\<rparr>"
  by (simp add: brokenInputManager_def InputManager_new_def registerProvider_def
      setActiveProvider_def activate_def deactivate_def Let_def fun_upd_twist exampleInputs_def
      KeyboardMouseProvider_new_def)

theorem provider_fault_falls_back_witness:
  "activeProvider brokenInputManager = Some 1 \<and>
   objects brokenInputManager 1 = Some (brokenProvider\<lparr>listening := True\<rparr>) \<and>
   update (brokenProvider\<lparr>listening := True\<rparr>) (1 / 60) {} {} (inputs brokenInputManager) =
     Inl (JsError ''camera lost'', inputs brokenInputManager) \<and>
   fallbackProvider brokenInputManager = Some 0 \<and>
   objects brokenInputManager 0 = Some KeyboardMouseProvider_new \<and>
   providers brokenInputManager (name KeyboardMouseProvider_new) = Some 0 \<and>
   (\<exists>im'. InputManager_update (1 / 60) brokenInputManager = Inr im' \<and>
          activeProvider im' = Some 0) \<and>
   (\<exists>g'. Game_update stillWorld (1 / 60) (exampleGame\<lparr>inputManager := brokenInputManager\<rparr>)
            = Inr g')"
proof -
  have a: "activeProvider brokenInputManager = Some 1"
    and o: "objects brokenInputManager 1 = Some (brokenProvider\<lparr>listening := True\<rparr>)"
    and f: "fallbackProvider brokenInputManager = Some 0"
    and k: "objects brokenInputManager 0 = Some KeyboardMouseProvider_new"
    and n: "providers brokenInputManager (name KeyboardMouseProvider_new) = Some 0"
    by (simp_all add: brokenInputManager_eq KeyboardMouseProvider_new_def)
  have u: "update (brokenProvider\<lparr>listening := True\<rparr>) (1 / 60)
        (keys (brokenProvider\<lparr>listening := True\<rparr>))
        (mouseButtons (brokenProvider\<lparr>listening := True\<rparr>)) (inputs brokenInputManager) =
      Inl (JsError ''camera lost'', inputs brokenInputManager)"
    by (simp add: brokenProvider_def)
  have g: "inputManager (exampleGame\<lparr>inputManager := brokenInputManager\<rparr>) = brokenInputManager"
    by simp
  from provider_fault_falls_back [OF a o u]
  obtain im' where r: "InputManager_update (1 / 60) brokenInputManager = Inr im'"
    and s: "\<forall>f pf. fallbackProvider brokenInputManager = Some f \<and> f \<noteq> 1 \<and>
               objects brokenInputManager f = Some pf \<and>
               providers brokenInputManager (name pf) = Some f \<longrightarrow> activeProvider im' = Some f"
    and t: "\<forall>c g. inputManager g = brokenInputManager \<longrightarrow>
               (\<exists>g'. Game_update c (1 / 60) g = Inr g')"
    by blast
  from s f k n have "activeProvider im' = Some 0" by simp
  moreover from t g
  have "\<exists>g'. Game_update stillWorld (1 / 60) (exampleGame\<lparr>inputManager := brokenInputManager\<rparr>)
            = Inr g'"
    by blast
  moreover have "update (brokenProvider\<lparr>listening := True\<rparr>) (1 / 60) {} {}
      (inputs brokenInputManager) = Inl (JsError ''camera lost'', inputs brokenInputManager)"
    by (simp add: brokenProvider_def)
  ultimately show ?thesis using a o f k n r by simp
qed

section \<open>Properties of the weapon switch\<close>



lemma toggleWeapon_inputManager [simp]: "inputManager (toggleWeapon g) = inputManager g"
  by (simp add: toggleWeapon_def Let_def)



















section \<open>Properties of the gesture signals\<close>

lemma pinchJudgment_distance:
  "pinchJudgment onT offT f th a =
     (case tipDistance f th of
        None \<Rightarrow> False
      | Some d \<Rightarrow> if a then \<not> offT < d else d < onT)"
  by (auto simp: pinchJudgment_def tipDistance_def Let_def split: option.splits)

lemma smoothAim_keeps [simp]:
  "rightPinchOnThreshold (smoothAim rx ry gi) = rightPinchOnThreshold gi"
  "rightPinchOffThreshold (smoothAim rx ry gi) = rightPinchOffThreshold gi"
  "leftPinchOnThreshold (smoothAim rx ry gi) = leftPinchOnThreshold gi"
  "leftPinchOffThreshold (smoothAim rx ry gi) = leftPinchOffThreshold gi"
  "rightPinchActive (smoothAim rx ry gi) = rightPinchActive gi"
  "leftPinchActive (smoothAim rx ry gi) = leftPinchActive gi"
  "aimSmoothingAlpha (smoothAim rx ry gi) = aimSmoothingAlpha gi"
  "aimDeadzonePx (smoothAim rx ry gi) = aimDeadzonePx gi"
  "aimMaxStepPx (smoothAim rx ry gi) = aimMaxStepPx gi"
  unfolding smoothAim_def Let_def by simp_all

lemma gestureAim_keeps [simp]:
  "rightPinchOnThreshold (gestureAim w h f gi) = rightPinchOnThreshold gi"
  "rightPinchOffThreshold (gestureAim w h f gi) = rightPinchOffThreshold gi"
  "leftPinchOnThreshold (gestureAim w h f gi) = leftPinchOnThreshold gi"
  "leftPinchOffThreshold (gestureAim w h f gi) = leftPinchOffThreshold gi"
  "rightPinchActive (gestureAim w h f gi) = rightPinchActive gi"
  "leftPinchActive (gestureAim w h f gi) = leftPinchActive gi"
  "aimSmoothingAlpha (gestureAim w h f gi) = aimSmoothingAlpha gi"
  "aimDeadzonePx (gestureAim w h f gi) = aimDeadzonePx gi"
  "aimMaxStepPx (gestureAim w h f gi) = aimMaxStepPx gi"
  by (simp_all add: gestureAim_def split: option.splits)

lemma gestureMovement_keeps [simp]:
  "rightPinchOnThreshold (gestureMovement f gi) = rightPinchOnThreshold gi"
  "rightPinchOffThreshold (gestureMovement f gi) = rightPinchOffThreshold gi"
  "leftPinchOnThreshold (gestureMovement f gi) = leftPinchOnThreshold gi"
  "leftPinchOffThreshold (gestureMovement f gi) = leftPinchOffThreshold gi"
  "rightPinchActive (gestureMovement f gi) = rightPinchActive gi"
  "leftPinchActive (gestureMovement f gi) = leftPinchActive gi"
  "aimSmoothingAlpha (gestureMovement f gi) = aimSmoothingAlpha gi"
  "aimDeadzonePx (gestureMovement f gi) = aimDeadzonePx gi"
  "aimMaxStepPx (gestureMovement f gi) = aimMaxStepPx gi"
  by (simp_all add: gestureMovement_def Let_def split: option.splits)

lemma onResults_pinch:
  "rightPinchOnThreshold (onResults ov hs gi) = rightPinchOnThreshold gi"
  "rightPinchOffThreshold (onResults ov hs gi) = rightPinchOffThreshold gi"
  "leftPinchOnThreshold (onResults ov hs gi) = leftPinchOnThreshold gi"
  "leftPinchOffThreshold (onResults ov hs gi) = leftPinchOffThreshold gi"
  "rightPinchActive (onResults ov hs gi) =
     (case rightPinchDistance hs of
        None \<Rightarrow> False
      | Some d \<Rightarrow> if rightPinchActive gi then \<not> rightPinchOffThreshold gi < d
                  else d < rightPinchOnThreshold gi)"
  "leftPinchActive (onResults ov hs gi) =
     (case leftPinchDistance hs of
        None \<Rightarrow> False
      | Some d \<Rightarrow> if leftPinchActive gi then \<not> leftPinchOffThreshold gi < d
                  else d < leftPinchOnThreshold gi)"
  by (simp_all add: onResults_def Let_def pinchJudgment_distance rightPinchDistance_def
      leftPinchDistance_def split: option.splits prod.splits)

lemma runFrames_append: "runFrames gi (xs @ ys) = runFrames (runFrames gi xs) ys"
  by (induction xs arbitrary: gi) simp_all

lemma runFrames_thresholds [simp]:
  "rightPinchOnThreshold (runFrames gi frames) = rightPinchOnThreshold gi"
  "rightPinchOffThreshold (runFrames gi frames) = rightPinchOffThreshold gi"
  "leftPinchOnThreshold (runFrames gi frames) = leftPinchOnThreshold gi"
  "leftPinchOffThreshold (runFrames gi frames) = leftPinchOffThreshold gi"
  by (induction frames arbitrary: gi) (simp_all add: onResults_pinch)

lemma right_stays_active:
  assumes "rightPinchActive gi" "rightPinchOffThreshold gi = offT"
    "list_all (\<lambda>fr. case rightPinchDistance (snd fr) of None \<Rightarrow> False
                     | Some d \<Rightarrow> d \<le> offT) frames"
  shows "rightPinchActive (runFrames gi frames)"
  using assms
proof (induction frames arbitrary: gi)
  case Nil
  then show ?case by simp
next
  case (Cons fr frames)
  let ?g = "onResults (fst fr) (snd fr) gi"
  have a: "rightPinchActive ?g"
    using Cons.prems by (auto simp: onResults_pinch split: option.splits)
  have t: "rightPinchOffThreshold ?g = offT"
    using Cons.prems(2) by (simp add: onResults_pinch)
  have r: "list_all (\<lambda>fr. case rightPinchDistance (snd fr) of None \<Rightarrow> False
                     | Some d \<Rightarrow> d \<le> offT) frames"
    using Cons.prems(3) by simp
  from Cons.IH [OF a t r] show ?case by simp
qed

lemma left_stays_active:
  assumes "leftPinchActive gi" "leftPinchOffThreshold gi = offT"
    "list_all (\<lambda>fr. case leftPinchDistance (snd fr) of None \<Rightarrow> False
                     | Some d \<Rightarrow> d \<le> offT) frames"
  shows "leftPinchActive (runFrames gi frames)"
  using assms
proof (induction frames arbitrary: gi)
  case Nil
  then show ?case by simp
next
  case (Cons fr frames)
  let ?g = "onResults (fst fr) (snd fr) gi"
  have a: "leftPinchActive ?g"
    using Cons.prems by (auto simp: onResults_pinch split: option.splits)
  have t: "leftPinchOffThreshold ?g = offT"
    using Cons.prems(2) by (simp add: onResults_pinch)
  have r: "list_all (\<lambda>fr. case leftPinchDistance (snd fr) of None \<Rightarrow> False
                     | Some d \<Rightarrow> d \<le> offT) frames"
    using Cons.prems(3) by simp
  from Cons.IH [OF a t r] show ?case by simp
qed

lemma take_Suc_split:
  assumes "i \<le> j" "j < length xs"
  shows "take (Suc j) xs = take i xs @ [xs ! i] @ drop (Suc i) (take (Suc j) xs)"
proof -
  have "take (Suc j) xs = take (Suc i) (take (Suc j) xs) @ drop (Suc i) (take (Suc j) xs)"
    by (simp only: append_take_drop_id)
  also have "take (Suc i) (take (Suc j) xs) = take (Suc i) xs"
    using assms by (simp add: min_def)
  also have "take (Suc i) xs = take i xs @ [xs ! i]"
    using assms by (simp add: take_Suc_conv_app_nth)
  finally show ?thesis by simp
qed

lemma list_all_middle:
  "list_all P xs \<Longrightarrow> list_all P (drop m (take n xs))"
  by (auto simp: list_all_iff dest: in_set_dropD in_set_takeD)

lemma right_becomes_active:
  assumes ok: "list_all (\<lambda>fr. case rightPinchDistance (snd fr) of None \<Rightarrow> False
                     | Some d \<Rightarrow> d \<le> rightPinchOffThreshold gi) frames"
    and i: "i < length frames"
    and cross: "case rightPinchDistance (snd (frames ! i)) of None \<Rightarrow> False
                | Some d \<Rightarrow> d < rightPinchOnThreshold gi"
    and j: "i \<le> j" "j < length frames"
  shows "rightPinchActive (runFrames gi (take (Suc j) frames))"
proof -
  let ?g = "runFrames gi (take i frames)"
  let ?fr = "frames ! i"
  let ?g' = "onResults (fst ?fr) (snd ?fr) ?g"
  from ok i have "case rightPinchDistance (snd ?fr) of None \<Rightarrow> False
      | Some d \<Rightarrow> d \<le> rightPinchOffThreshold gi"
    by (simp add: list_all_length)
  with cross have a: "rightPinchActive ?g'"
    by (auto simp: onResults_pinch split: option.splits)
  have t: "rightPinchOffThreshold ?g' = rightPinchOffThreshold gi"
    by (simp add: onResults_pinch)
  have "runFrames gi (take (Suc j) frames) =
      runFrames ?g' (drop (Suc i) (take (Suc j) frames))"
    by (subst take_Suc_split [OF j]) (simp add: runFrames_append)
  then show ?thesis using right_stays_active [OF a t list_all_middle [OF ok]] by simp
qed

lemma left_becomes_active:
  assumes ok: "list_all (\<lambda>fr. case leftPinchDistance (snd fr) of None \<Rightarrow> False
                     | Some d \<Rightarrow> d \<le> leftPinchOffThreshold gi) frames"
    and i: "i < length frames"
    and cross: "case leftPinchDistance (snd (frames ! i)) of None \<Rightarrow> False
                | Some d \<Rightarrow> d < leftPinchOnThreshold gi"
    and j: "i \<le> j" "j < length frames"
  shows "leftPinchActive (runFrames gi (take (Suc j) frames))"
proof -
  let ?g = "runFrames gi (take i frames)"
  let ?fr = "frames ! i"
  let ?g' = "onResults (fst ?fr) (snd ?fr) ?g"
  from ok i have "case leftPinchDistance (snd ?fr) of None \<Rightarrow> False
      | Some d \<Rightarrow> d \<le> leftPinchOffThreshold gi"
    by (simp add: list_all_length)
  with cross have a: "leftPinchActive ?g'"
    by (auto simp: onResults_pinch split: option.splits)
  have t: "leftPinchOffThreshold ?g' = leftPinchOffThreshold gi"
    by (simp add: onResults_pinch)
  have "runFrames gi (take (Suc j) frames) =
      runFrames ?g' (drop (Suc i) (take (Suc j) frames))"
    by (subst take_Suc_split [OF j]) (simp add: runFrames_append)
  then show ?thesis using left_stays_active [OF a t list_all_middle [OF ok]] by simp
qed


text \<open>
  Claim C4, for the right and for the left hand. Take frames in all of which the hand
  has both tips and their distance is at most the exit threshold, and in which frame
  \<open>i\<close> has a distance below the enter threshold: after every frame from \<open>i\<close> on the
  pinch is active. A pinch that is active before a frame and not after it has met a
  frame without the hand's tips or with a distance above the exit threshold. The
  constructor's enter thresholds are below its exit thresholds.
\<close>

theorem pinch_hysteresis:
  "(list_all (\<lambda>fr. case rightPinchDistance (snd fr) of None \<Rightarrow> False
                    | Some d \<Rightarrow> d \<le> rightPinchOffThreshold gi) frames \<and>
    i < length frames \<and>
    (case rightPinchDistance (snd (frames ! i)) of None \<Rightarrow> False
     | Some d \<Rightarrow> d < rightPinchOnThreshold gi) \<and>
    i \<le> j \<and> j < length frames \<longrightarrow>
      rightPinchActive (runFrames gi (take (Suc j) frames))) \<and>
   (list_all (\<lambda>fr. case leftPinchDistance (snd fr) of None \<Rightarrow> False
                    | Some d \<Rightarrow> d \<le> leftPinchOffThreshold gi) frames \<and>
    i < length frames \<and>
    (case leftPinchDistance (snd (frames ! i)) of None \<Rightarrow> False
     | Some d \<Rightarrow> d < leftPinchOnThreshold gi) \<and>
    i \<le> j \<and> j < length frames \<longrightarrow>
      leftPinchActive (runFrames gi (take (Suc j) frames))) \<and>
   (rightPinchActive gi \<and> \<not> rightPinchActive (onResults ov hs gi) \<longrightarrow>
      (case rightPinchDistance hs of None \<Rightarrow> True
       | Some d \<Rightarrow> rightPinchOffThreshold gi < d)) \<and>
   (leftPinchActive gi \<and> \<not> leftPinchActive (onResults ov hs gi) \<longrightarrow>
      (case leftPinchDistance hs of None \<Rightarrow> True
       | Some d \<Rightarrow> leftPinchOffThreshold gi < d)) \<and>
   rightPinchOnThreshold GestureInputManager_new < rightPinchOffThreshold GestureInputManager_new \<and>
   leftPinchOnThreshold GestureInputManager_new < leftPinchOffThreshold GestureInputManager_new"
proof -
  have r: "rightPinchActive gi \<and> \<not> rightPinchActive (onResults ov hs gi) \<longrightarrow>
      (case rightPinchDistance hs of None \<Rightarrow> True
       | Some d \<Rightarrow> rightPinchOffThreshold gi < d)"
    by (auto simp: onResults_pinch split: option.splits)
  have l: "leftPinchActive gi \<and> \<not> leftPinchActive (onResults ov hs gi) \<longrightarrow>
      (case leftPinchDistance hs of None \<Rightarrow> True
       | Some d \<Rightarrow> leftPinchOffThreshold gi < d)"
    by (auto simp: onResults_pinch split: option.splits)
  have c: "rightPinchOnThreshold GestureInputManager_new
        < rightPinchOffThreshold GestureInputManager_new \<and>
      leftPinchOnThreshold GestureInputManager_new
        < leftPinchOffThreshold GestureInputManager_new"
    by (simp add: GestureInputManager_new_def)
  show ?thesis
    using right_becomes_active [of gi frames i j] left_becomes_active [of gi frames i j] r l c
    by blast
qed

text \<open>The four frames: 0.05 does not start the pinch, 0.03 does, and 0.05 and 0.045
  (between the thresholds 0.04 and 0.055) do not end it.\<close>

lemma pinchingHand_distance:
  "rightPinchDistance [pinchingHand ''Right'' d] = Some \<bar>d\<bar>"
  by (simp add: rightPinchDistance_def pinchingHand_def noTips_def element_def tipDistance_def
      Math_hypot_def nth_append)

theorem pinch_hysteresis_witness:
  "list_all (\<lambda>fr. case rightPinchDistance (snd fr) of None \<Rightarrow> False
                   | Some d \<Rightarrow> d \<le> rightPinchOffThreshold GestureInputManager_new)
     rightPinchFrames \<and>
   rightPinchDistance (snd (rightPinchFrames ! 1)) = Some (3 / 100) \<and>
   3 / 100 < rightPinchOnThreshold GestureInputManager_new \<and>
   length rightPinchFrames = 4 \<and>
   \<not> rightPinchActive (runFrames GestureInputManager_new (take 1 rightPinchFrames)) \<and>
   rightPinchActive (runFrames GestureInputManager_new (take 2 rightPinchFrames)) \<and>
   rightPinchActive (runFrames GestureInputManager_new (take 3 rightPinchFrames)) \<and>
   rightPinchActive (runFrames GestureInputManager_new (take 4 rightPinchFrames))"
proof -
  have ok: "list_all (\<lambda>fr. case rightPinchDistance (snd fr) of None \<Rightarrow> False
                   | Some d \<Rightarrow> d \<le> rightPinchOffThreshold GestureInputManager_new)
     rightPinchFrames"
    by (simp add: rightPinchFrames_def pinchingHand_distance GestureInputManager_new_def)
  have d: "rightPinchDistance (snd (rightPinchFrames ! 1)) = Some (3 / 100)"
    by (simp add: rightPinchFrames_def pinchingHand_distance)
  have t: "3 / 100 < rightPinchOnThreshold GestureInputManager_new"
    by (simp add: GestureInputManager_new_def)
  have n: "length rightPinchFrames = 4"
    by (simp add: rightPinchFrames_def)
  have cross: "case rightPinchDistance (snd (rightPinchFrames ! 1)) of None \<Rightarrow> False
     | Some d \<Rightarrow> d < rightPinchOnThreshold GestureInputManager_new"
    using d t by simp
  have first: "\<not> rightPinchActive (runFrames GestureInputManager_new (take 1 rightPinchFrames))"
    by (simp add: rightPinchFrames_def onResults_pinch pinchingHand_distance
        GestureInputManager_new_def)
  have "rightPinchActive (runFrames GestureInputManager_new (take (Suc j) rightPinchFrames))"
    if "1 \<le> j" "j < 4" for j
    using pinch_hysteresis [of GestureInputManager_new rightPinchFrames 1 j] ok cross n that
    by simp
  from this [of 1] this [of 2] this [of 3] ok d t n first show ?thesis
    by (simp add: numeral_2_eq_2 numeral_3_eq_3 eval_nat_numeral)
qed

lemma smoothAim_below_deadzone:
  assumes "gestureAimSmoothed gi = Some s"
    "sqrt ((rx - x s) * (rx - x s) + (ry - y s) * (ry - y s)) < aimDeadzonePx gi"
  shows "gestureAimSmoothed (smoothAim rx ry gi) = Some s"
  using assms by (simp add: smoothAim_def Let_def Math_hypot_def)

lemma smoothAim_sequence:
  assumes "gestureAimSmoothed gi = Some s"
    "list_all (\<lambda>r. sqrt ((fst r - x s) * (fst r - x s) + (snd r - y s) * (snd r - y s))
                  < aimDeadzonePx gi) raws"
  shows "gestureAimSmoothed (foldl (\<lambda>g r. smoothAim (fst r) (snd r) g) gi raws) = Some s"
  using assms
proof (induction raws arbitrary: gi)
  case Nil
  then show ?case by simp
next
  case (Cons r raws)
  let ?g = "smoothAim (fst r) (snd r) gi"
  have a: "gestureAimSmoothed ?g = Some s"
    using Cons.prems by (simp add: smoothAim_below_deadzone)
  have b: "list_all (\<lambda>r. sqrt ((fst r - x s) * (fst r - x s) + (snd r - y s) * (snd r - y s))
                  < aimDeadzonePx ?g) raws"
    using Cons.prems(2) by simp
  from Cons.IH [OF a b] show ?case by simp
qed

text \<open>The clamp by cases, and the distance a blended coordinate moves.\<close>

lemma clamp_cases:
  "0 \<le> m \<Longrightarrow>
   Utils_clamp d (- m) m = (if d < - m then - m else if m < d then m else (d::real))"
  by (simp add: Utils_clamp_def min_def max_def)

lemma blend_moves: "p * (1 - a) + (p + c) * a - p = a * (c::real)"
  by (simp add: algebra_simps)

lemma blend_bound:
  assumes "0 \<le> a" "0 \<le> m"
  shows "\<bar>a * Utils_clamp d (- m) m\<bar> \<le> a * (m::real)"
proof -
  have "\<bar>Utils_clamp d (- m) m\<bar> \<le> m"
    using assms(2) by (auto simp add: Utils_clamp_def min_def max_def abs_if)
  then have "a * \<bar>Utils_clamp d (- m) m\<bar> \<le> a * m"
    using assms(1) by (rule mult_left_mono)
  then show ?thesis using assms(1) by (simp add: abs_mult)
qed

lemma smoothAim_moved:
  assumes "\<not> Math_hypot (rawX - x prev) (rawY - y prev) < aimDeadzonePx gi"
    "prev = (case gestureAimSmoothed gi of Some s \<Rightarrow> s | None \<Rightarrow> \<lparr>x = rawX, y = rawY\<rparr>)"
  shows "\<exists>s'. gestureAimSmoothed (smoothAim rawX rawY gi) = Some s' \<and>
      x s' - x prev = aimSmoothingAlpha gi *
        Utils_clamp (rawX - x prev) (- aimMaxStepPx gi) (aimMaxStepPx gi) \<and>
      y s' - y prev = aimSmoothingAlpha gi *
        Utils_clamp (rawY - y prev) (- aimMaxStepPx gi) (aimMaxStepPx gi)"
  using assms unfolding smoothAim_def Let_def by (simp add: blend_moves)

text \<open>
  Claim C5. One run of the smoothing step on a raw aim point: \<open>prev\<close> is the last
  smoothed point (the raw point itself when there is none yet), \<open>dx\<close> and \<open>dy\<close> the
  delta of the raw point from it, and the magnitude of the delta is the square root of
  \<open>dx * dx + dy * dy\<close>. If the magnitude is below the deadzone, the smoothed point is
  \<open>prev\<close>. Otherwise each coordinate of the delta is clamped to the maximum step \<open>m\<close>
  (first raised to \<open>- m\<close>, then lowered to \<open>m\<close>), added to \<open>prev\<close>, and blended with \<open>prev\<close>
  with the weight alpha; so, for a maximum step that is not negative, each coordinate
  moves by alpha times the delta when the delta is within the maximum step, by alpha
  times the maximum step in the direction of the delta when it is beyond, and never by
  more than alpha times the maximum step when alpha is not negative. The published target
  is the smoothed point with each coordinate rounded to an integer, a half going up, and
  the three parameters stay as they are. Over any sequence of raw points that all lie
  within the deadzone of the smoothed point, the smoothed point stays exactly the same.
  The constructor's alpha is 0.4, its deadzone 6 and its maximum step 10000.
\<close>

theorem aim_smoothing:
  "(let prev = (case gestureAimSmoothed gi of Some s \<Rightarrow> s | None \<Rightarrow> \<lparr>x = rawX, y = rawY\<rparr>);
        dx = rawX - x prev;
        dy = rawY - y prev;
        a = aimSmoothingAlpha gi;
        m = aimMaxStepPx gi;
        gi' = smoothAim rawX rawY gi
    in (sqrt (dx * dx + dy * dy) < aimDeadzonePx gi \<longrightarrow> gestureAimSmoothed gi' = Some prev) \<and>
       (\<not> sqrt (dx * dx + dy * dy) < aimDeadzonePx gi \<longrightarrow>
          gestureAimSmoothed gi' =
            Some \<lparr>x = x prev * (1 - a) + (x prev + min (max dx (- m)) m) * a,
                  y = y prev * (1 - a) + (y prev + min (max dy (- m)) m) * a\<rparr> \<and>
          (0 \<le> m \<longrightarrow>
             (\<exists>s'. gestureAimSmoothed gi' = Some s' \<and>
                x s' - x prev = a * (if dx < - m then - m else if m < dx then m else dx) \<and>
                y s' - y prev = a * (if dy < - m then - m else if m < dy then m else dy) \<and>
                (0 \<le> a \<longrightarrow> \<bar>x s' - x prev\<bar> \<le> a * m \<and> \<bar>y s' - y prev\<bar> \<le> a * m)))) \<and>
       (\<exists>s. gestureAimSmoothed gi' = Some s \<and>
            gestureAimTargetGame gi' =
              Some \<lparr>x = of_int \<lfloor>x s + 1 / 2\<rfloor>, y = of_int \<lfloor>y s + 1 / 2\<rfloor>\<rparr>) \<and>
       aimSmoothingAlpha gi' = a \<and> aimDeadzonePx gi' = aimDeadzonePx gi \<and>
       aimMaxStepPx gi' = m) \<and>
   (gestureAimSmoothed gi = Some s \<and>
    list_all (\<lambda>r. sqrt ((fst r - x s) * (fst r - x s) + (snd r - y s) * (snd r - y s))
                 < aimDeadzonePx gi) raws \<longrightarrow>
      gestureAimSmoothed (foldl (\<lambda>g r. smoothAim (fst r) (snd r) g) gi raws) = Some s) \<and>
   0 < aimSmoothingAlpha GestureInputManager_new \<and>
   aimSmoothingAlpha GestureInputManager_new < 1 \<and>
   aimDeadzonePx GestureInputManager_new = 6 \<and>
   aimMaxStepPx GestureInputManager_new = 10000"
proof -
  define prev where
    "prev = (case gestureAimSmoothed gi of Some s \<Rightarrow> s | None \<Rightarrow> \<lparr>x = rawX, y = rawY\<rparr>)"
  define dx where "dx = rawX - x prev"
  define dy where "dy = rawY - y prev"
  define a where "a = aimSmoothingAlpha gi"
  define m where "m = aimMaxStepPx gi"
  define gi' where "gi' = smoothAim rawX rawY gi"
  have near: "gestureAimSmoothed gi' = Some prev"
    if "sqrt (dx * dx + dy * dy) < aimDeadzonePx gi"
    using that unfolding gi'_def prev_def dx_def dy_def smoothAim_def Let_def Math_hypot_def
    by simp
  have far: "gestureAimSmoothed gi' =
        Some \<lparr>x = x prev * (1 - a) + (x prev + min (max dx (- m)) m) * a,
              y = y prev * (1 - a) + (y prev + min (max dy (- m)) m) * a\<rparr>"
    if "\<not> sqrt (dx * dx + dy * dy) < aimDeadzonePx gi"
    using that
    unfolding gi'_def prev_def dx_def dy_def a_def m_def smoothAim_def Let_def Math_hypot_def
      Utils_clamp_def
    by simp
  have moved: "\<exists>s'. gestureAimSmoothed gi' = Some s' \<and>
        x s' - x prev = a * (if dx < - m then - m else if m < dx then m else dx) \<and>
        y s' - y prev = a * (if dy < - m then - m else if m < dy then m else dy) \<and>
        (0 \<le> a \<longrightarrow> \<bar>x s' - x prev\<bar> \<le> a * m \<and> \<bar>y s' - y prev\<bar> \<le> a * m)"
    if d: "\<not> sqrt (dx * dx + dy * dy) < aimDeadzonePx gi" and m: "0 \<le> m"
  proof -
    from d have "\<not> Math_hypot (rawX - x prev) (rawY - y prev) < aimDeadzonePx gi"
      by (simp add: Math_hypot_def dx_def dy_def)
    from smoothAim_moved [OF this prev_def]
    obtain s' where s: "gestureAimSmoothed gi' = Some s'"
      and mx: "x s' - x prev = a * Utils_clamp dx (- m) m"
      and my: "y s' - y prev = a * Utils_clamp dy (- m) m"
      unfolding gi'_def dx_def dy_def a_def m_def by blast
    have "x s' - x prev = a * (if dx < - m then - m else if m < dx then m else dx)"
      and "y s' - y prev = a * (if dy < - m then - m else if m < dy then m else dy)"
      using mx my by (simp_all only: clamp_cases [OF m])
    moreover have "\<bar>x s' - x prev\<bar> \<le> a * m \<and> \<bar>y s' - y prev\<bar> \<le> a * m" if "0 \<le> a"
      using blend_bound [OF that m] by (simp only: mx my simp_thms)
    ultimately show ?thesis using s by blast
  qed
  have target: "\<exists>s. gestureAimSmoothed gi' = Some s \<and>
        gestureAimTargetGame gi' =
          Some \<lparr>x = of_int \<lfloor>x s + 1 / 2\<rfloor>, y = of_int \<lfloor>y s + 1 / 2\<rfloor>\<rparr>"
    unfolding gi'_def smoothAim_def Let_def Math_round_def by simp
  have kept: "aimSmoothingAlpha gi' = a \<and> aimDeadzonePx gi' = aimDeadzonePx gi \<and>
      aimMaxStepPx gi' = m"
    unfolding gi'_def a_def m_def by simp
  have step: "(sqrt (dx * dx + dy * dy) < aimDeadzonePx gi \<longrightarrow>
        gestureAimSmoothed gi' = Some prev) \<and>
       (\<not> sqrt (dx * dx + dy * dy) < aimDeadzonePx gi \<longrightarrow>
          gestureAimSmoothed gi' =
            Some \<lparr>x = x prev * (1 - a) + (x prev + min (max dx (- m)) m) * a,
                  y = y prev * (1 - a) + (y prev + min (max dy (- m)) m) * a\<rparr> \<and>
          (0 \<le> m \<longrightarrow>
             (\<exists>s'. gestureAimSmoothed gi' = Some s' \<and>
                x s' - x prev = a * (if dx < - m then - m else if m < dx then m else dx) \<and>
                y s' - y prev = a * (if dy < - m then - m else if m < dy then m else dy) \<and>
                (0 \<le> a \<longrightarrow> \<bar>x s' - x prev\<bar> \<le> a * m \<and> \<bar>y s' - y prev\<bar> \<le> a * m)))) \<and>
       (\<exists>s. gestureAimSmoothed gi' = Some s \<and>
            gestureAimTargetGame gi' =
              Some \<lparr>x = of_int \<lfloor>x s + 1 / 2\<rfloor>, y = of_int \<lfloor>y s + 1 / 2\<rfloor>\<rparr>) \<and>
       aimSmoothingAlpha gi' = a \<and> aimDeadzonePx gi' = aimDeadzonePx gi \<and>
       aimMaxStepPx gi' = m"
    using near far moved target kept by blast
  have fixed: "0 < aimSmoothingAlpha GestureInputManager_new \<and>
      aimSmoothingAlpha GestureInputManager_new < 1 \<and>
      aimDeadzonePx GestureInputManager_new = 6 \<and>
      aimMaxStepPx GestureInputManager_new = 10000"
    by (simp add: GestureInputManager_new_def)
  have sequence: "gestureAimSmoothed gi = Some s \<and>
    list_all (\<lambda>r. sqrt ((fst r - x s) * (fst r - x s) + (snd r - y s) * (snd r - y s))
                 < aimDeadzonePx gi) raws \<longrightarrow>
      gestureAimSmoothed (foldl (\<lambda>g r. smoothAim (fst r) (snd r) g) gi raws) = Some s"
    using smoothAim_sequence [of gi s raws] by blast
  from step have "let prev = (case gestureAimSmoothed gi of Some s \<Rightarrow> s
                              | None \<Rightarrow> \<lparr>x = rawX, y = rawY\<rparr>);
        dx = rawX - x prev;
        dy = rawY - y prev;
        a = aimSmoothingAlpha gi;
        m = aimMaxStepPx gi;
        gi' = smoothAim rawX rawY gi
    in (sqrt (dx * dx + dy * dy) < aimDeadzonePx gi \<longrightarrow> gestureAimSmoothed gi' = Some prev) \<and>
       (\<not> sqrt (dx * dx + dy * dy) < aimDeadzonePx gi \<longrightarrow>
          gestureAimSmoothed gi' =
            Some \<lparr>x = x prev * (1 - a) + (x prev + min (max dx (- m)) m) * a,
                  y = y prev * (1 - a) + (y prev + min (max dy (- m)) m) * a\<rparr> \<and>
          (0 \<le> m \<longrightarrow>
             (\<exists>s'. gestureAimSmoothed gi' = Some s' \<and>
                x s' - x prev = a * (if dx < - m then - m else if m < dx then m else dx) \<and>
                y s' - y prev = a * (if dy < - m then - m else if m < dy then m else dy) \<and>
                (0 \<le> a \<longrightarrow> \<bar>x s' - x prev\<bar> \<le> a * m \<and> \<bar>y s' - y prev\<bar> \<le> a * m)))) \<and>
       (\<exists>s. gestureAimSmoothed gi' = Some s \<and>
            gestureAimTargetGame gi' =
              Some \<lparr>x = of_int \<lfloor>x s + 1 / 2\<rfloor>, y = of_int \<lfloor>y s + 1 / 2\<rfloor>\<rparr>) \<and>
       aimSmoothingAlpha gi' = a \<and> aimDeadzonePx gi' = aimDeadzonePx gi \<and>
       aimMaxStepPx gi' = m"
    unfolding Let_def prev_def dx_def dy_def a_def m_def gi'_def .
  then show ?thesis using sequence fixed by blast
qed

text \<open>Smoothed point (100, 100), alpha 0.4, deadzone 6, maximum step 10000: the raw point
  (103, 104) is 5 away and changes nothing; (130, 141) gives (112, 116.4) and the target
  (112, 116); (20100, -19900), 20000 away in each coordinate, is clamped to a step of
  10000 and gives (4100, -3900), 4000 away, and the same target. With the maximum step
  10 instead, (130, 141) is clamped to (110, 110) and gives (104, 104).\<close>

theorem aim_smoothing_witness:
  "gestureAimSmoothed aimingManager = Some \<lparr>x = 100, y = 100\<rparr> \<and>
   sqrt ((103 - 100) * (103 - 100) + (104 - 100) * (104 - 100)) < aimDeadzonePx aimingManager \<and>
   gestureAimSmoothed (smoothAim 103 104 aimingManager) = Some \<lparr>x = 100, y = 100\<rparr> \<and>
   gestureAimTargetGame (smoothAim 103 104 aimingManager) = Some \<lparr>x = 100, y = 100\<rparr> \<and>
   \<not> sqrt ((130 - 100) * (130 - 100) + (141 - 100) * (141 - 100)) < aimDeadzonePx aimingManager \<and>
   gestureAimSmoothed (smoothAim 130 141 aimingManager) = Some \<lparr>x = 112, y = 1164 / 10\<rparr> \<and>
   gestureAimTargetGame (smoothAim 130 141 aimingManager) = Some \<lparr>x = 112, y = 116\<rparr> \<and>
   gestureAimSmoothed
     (foldl (\<lambda>g r. smoothAim (fst r) (snd r) g) aimingManager [(103, 104), (97, 96), (100, 105)])
     = Some \<lparr>x = 100, y = 100\<rparr> \<and>
   aimMaxStepPx aimingManager = 10000 \<and>
   gestureAimSmoothed (smoothAim 20100 (- 19900) aimingManager)
     = Some \<lparr>x = 4100, y = - 3900\<rparr> \<and>
   gestureAimTargetGame (smoothAim 20100 (- 19900) aimingManager)
     = Some \<lparr>x = 4100, y = - 3900\<rparr> \<and>
   aimMaxStepPx cappedManager = 10 \<and>
   gestureAimSmoothed (smoothAim 130 141 cappedManager) = Some \<lparr>x = 104, y = 104\<rparr> \<and>
   gestureAimTargetGame (smoothAim 130 141 cappedManager) = Some \<lparr>x = 104, y = 104\<rparr>"
proof -
  have s: "gestureAimSmoothed aimingManager = Some \<lparr>x = 100, y = 100\<rparr>"
    and dz: "aimDeadzonePx aimingManager = 6"
    and al: "aimSmoothingAlpha aimingManager = 4 / 10"
    and mx: "aimMaxStepPx aimingManager = 10000"
    by (simp_all add: aimingManager_def GestureInputManager_new_def)
  have near: "sqrt ((103 - 100) * (103 - 100) + (104 - 100) * (104 - 100))
      < aimDeadzonePx aimingManager"
    by (simp add: dz)
  have far: "\<not> sqrt ((130 - 100) * (130 - 100) + (141 - 100) * (141 - 100))
      < aimDeadzonePx aimingManager"
    by (simp add: dz sqrt_less_square)
  have seq: "list_all (\<lambda>r. sqrt ((fst r - x \<lparr>x = 100, y = 100\<rparr>) * (fst r - x \<lparr>x = 100, y = 100\<rparr>)
        + (snd r - y \<lparr>x = 100, y = 100\<rparr>) * (snd r - y \<lparr>x = 100, y = 100\<rparr>))
        < aimDeadzonePx aimingManager)
      [(103, 104), (97, 96), (100, 105)]"
    by (simp add: dz)
  from aim_smoothing [where gi = aimingManager and rawX = 103 and rawY = 104
      and s = "\<lparr>x = 100, y = 100\<rparr>" and raws = "[(103, 104), (97, 96), (100, 105)]"]
    s near seq
  have a: "gestureAimSmoothed (smoothAim 103 104 aimingManager) = Some \<lparr>x = 100, y = 100\<rparr>"
    and a': "gestureAimTargetGame (smoothAim 103 104 aimingManager) = Some \<lparr>x = 100, y = 100\<rparr>"
    and c: "gestureAimSmoothed
     (foldl (\<lambda>g r. smoothAim (fst r) (snd r) g) aimingManager [(103, 104), (97, 96), (100, 105)])
     = Some \<lparr>x = 100, y = 100\<rparr>"
    by (auto simp: Let_def)
  note mid = aim_smoothing [where gi = aimingManager and rawX = 130 and rawY = 141
      and s = "\<lparr>x = 100, y = 100\<rparr>" and raws = "[]"]
  from mid s far al mx
  have b: "gestureAimSmoothed (smoothAim 130 141 aimingManager) = Some \<lparr>x = 112, y = 1164 / 10\<rparr>"
    by (simp add: Let_def)
  from mid
  have e: "\<exists>s. gestureAimSmoothed (smoothAim 130 141 aimingManager) = Some s \<and>
      gestureAimTargetGame (smoothAim 130 141 aimingManager) =
        Some \<lparr>x = of_int \<lfloor>x s + 1 / 2\<rfloor>, y = of_int \<lfloor>y s + 1 / 2\<rfloor>\<rparr>"
    unfolding Let_def by blast
  from e obtain s' where "gestureAimSmoothed (smoothAim 130 141 aimingManager) = Some s'"
    and t: "gestureAimTargetGame (smoothAim 130 141 aimingManager) =
        Some \<lparr>x = of_int \<lfloor>x s' + 1 / 2\<rfloor>, y = of_int \<lfloor>y s' + 1 / 2\<rfloor>\<rparr>"
    by blast
  with b have "s' = \<lparr>x = 112, y = 1164 / 10\<rparr>" by simp
  with t have b': "gestureAimTargetGame (smoothAim 130 141 aimingManager) =
      Some \<lparr>x = 112, y = 116\<rparr>"
    by simp
  have wide: "\<not> sqrt ((20100 - 100) * (20100 - 100) + (- 19900 - 100) * (- 19900 - 100))
      < aimDeadzonePx aimingManager"
    by (simp add: dz sqrt_less_square)
  note big = aim_smoothing [where gi = aimingManager and rawX = 20100 and rawY = "- 19900"
      and s = "\<lparr>x = 100, y = 100\<rparr>" and raws = "[]"]
  from big s wide al mx
  have d: "gestureAimSmoothed (smoothAim 20100 (- 19900) aimingManager)
      = Some \<lparr>x = 4100, y = - 3900\<rparr>"
    by (simp add: Let_def)
  from big
  have e: "\<exists>s. gestureAimSmoothed (smoothAim 20100 (- 19900) aimingManager) = Some s \<and>
      gestureAimTargetGame (smoothAim 20100 (- 19900) aimingManager) =
        Some \<lparr>x = of_int \<lfloor>x s + 1 / 2\<rfloor>, y = of_int \<lfloor>y s + 1 / 2\<rfloor>\<rparr>"
    unfolding Let_def by blast
  from e obtain s' where "gestureAimSmoothed (smoothAim 20100 (- 19900) aimingManager) = Some s'"
    and t: "gestureAimTargetGame (smoothAim 20100 (- 19900) aimingManager) =
        Some \<lparr>x = of_int \<lfloor>x s' + 1 / 2\<rfloor>, y = of_int \<lfloor>y s' + 1 / 2\<rfloor>\<rparr>"
    by blast
  with d have "s' = \<lparr>x = 4100, y = - 3900\<rparr>" by simp
  with t have d': "gestureAimTargetGame (smoothAim 20100 (- 19900) aimingManager) =
      Some \<lparr>x = 4100, y = - 3900\<rparr>"
    by simp
  have s2: "gestureAimSmoothed cappedManager = Some \<lparr>x = 100, y = 100\<rparr>"
    and dz2: "aimDeadzonePx cappedManager = 6"
    and al2: "aimSmoothingAlpha cappedManager = 4 / 10"
    and mx2: "aimMaxStepPx cappedManager = 10"
    by (simp_all add: cappedManager_def aimingManager_def GestureInputManager_new_def)
  have far2: "\<not> sqrt ((130 - 100) * (130 - 100) + (141 - 100) * (141 - 100))
      < aimDeadzonePx cappedManager"
    by (simp add: dz2 sqrt_less_square)
  note capped = aim_smoothing [where gi = cappedManager and rawX = 130 and rawY = 141
      and s = "\<lparr>x = 100, y = 100\<rparr>" and raws = "[]"]
  from capped s2 far2 al2 mx2
  have f: "gestureAimSmoothed (smoothAim 130 141 cappedManager) = Some \<lparr>x = 104, y = 104\<rparr>"
    by (simp add: Let_def)
  from capped
  have e: "\<exists>s. gestureAimSmoothed (smoothAim 130 141 cappedManager) = Some s \<and>
      gestureAimTargetGame (smoothAim 130 141 cappedManager) =
        Some \<lparr>x = of_int \<lfloor>x s + 1 / 2\<rfloor>, y = of_int \<lfloor>y s + 1 / 2\<rfloor>\<rparr>"
    unfolding Let_def by blast
  from e obtain s' where "gestureAimSmoothed (smoothAim 130 141 cappedManager) = Some s'"
    and t: "gestureAimTargetGame (smoothAim 130 141 cappedManager) =
        Some \<lparr>x = of_int \<lfloor>x s' + 1 / 2\<rfloor>, y = of_int \<lfloor>y s' + 1 / 2\<rfloor>\<rparr>"
    by blast
  with f have "s' = \<lparr>x = 104, y = 104\<rparr>" by simp
  with t have f': "gestureAimTargetGame (smoothAim 130 141 cappedManager) =
      Some \<lparr>x = 104, y = 104\<rparr>"
    by simp
  from s near far a a' b b' c mx d d' mx2 f f' show ?thesis by simp
qed

end
